theory Spec2Isabelle
  imports Complex_Main "HOL-Library.Char_ord" "HOL-Library.List_Lexorder"
begin

section \<open>Data model\<close>

text \<open>
  Python numbers (\<open>int\<close> and \<open>float\<close>) are modelled as \<^typ>\<open>real\<close>: the arithmetic
  of the scoring functions is exact here, IEEE rounding and the special values
  \<open>inf\<close> and \<open>nan\<close> are not values of the model. A profile field holds a boolean
  or a number; \<open>bool\<close> is a subclass of \<open>int\<close> in Python, so a boolean read as a
  number is 0 or 1 and a number read as a condition is true when it is not 0.
\<close>

datatype pyval = PBool bool | PNum real

fun truthy :: "pyval \<Rightarrow> bool" where
  "truthy (PBool b) = b"
| "truthy (PNum x) = (x \<noteq> 0)"

fun num :: "pyval \<Rightarrow> real" where
  "num (PBool b) = (if b then 1 else 0)"
| "num (PNum x) = x"

type_synonym pydict = "string \<Rightarrow> pyval option"

text \<open>\<open>d.get(k, default)\<close>\<close>

definition dict_get :: "pydict \<Rightarrow> string \<Rightarrow> pyval \<Rightarrow> pyval" where
  "dict_get d k dflt = (case d k of None \<Rightarrow> dflt | Some v \<Rightarrow> v)"

text \<open>
  The dataclass \<open>IndicatorResult\<close> of \<open>indicator_engine.py\<close>. The fields \<open>evidence\<close>
  and \<open>details\<close> (formatted text and a dictionary of the raw inputs) are left out:
  no operation of the engine reads them. The field \<open>theory\<close> is named \<open>theory_name\<close>.
\<close>

record IndicatorResult =
  indicator_id :: string
  theory_name :: string
  name :: string
  description :: string
  score :: real
  satisfied :: bool
  partial :: bool

text \<open>
  A profile: four optional sections. The three observation sections are
  dictionaries from field names to values, \<open>metadata\<close> holds text.
  \<open>profile.get("architecture", {})\<close> is \<open>section_get (architecture profile)\<close>.
\<close>

record profile =
  metadata :: "(string \<Rightarrow> string option) option"
  architecture :: "pydict option"
  behaviors :: "pydict option"
  internal_states :: "pydict option"

definition section_get :: "(string \<Rightarrow> 'a option) option \<Rightarrow> (string \<Rightarrow> 'a option)" where
  "section_get sec = (case sec of None \<Rightarrow> Map.empty | Some d \<Rightarrow> d)"

section \<open>Indicator evaluators\<close>

text \<open>
  Each evaluator follows its source line by line: \<open>s0\<close>, \<open>s1\<close>, ... are the
  successive values of the local variable \<open>score\<close>.
\<close>

subsection \<open>Recurrent processing (\<open>rpt_indicators.py\<close>)\<close>

definition rpt1 :: "pydict \<Rightarrow> IndicatorResult" where
  "rpt1 arch =
     (let has_recurrence = dict_get arch ''has_recurrent_connections'' (PBool False);
          recurrence_depth = dict_get arch ''recurrence_depth'' (PNum 0);
          feedback_loops = dict_get arch ''feedback_loop_count'' (PNum 0);
          s0 = 0;
          s1 = (if truthy has_recurrence then s0 + 0.4 else s0);
          s2 = s1 + min (num recurrence_depth / 10) 0.3;
          s3 = s2 + min (num feedback_loops / 5) 0.3;
          s4 = min s3 1
      in \<lparr>indicator_id = ''RPT-1'', theory_name = ''RPT'', name = ''Algorithmic Recurrence'',
          description = ''System implements recurrent processing with feedback loops'',
          score = s4, satisfied = (s4 \<ge> 0.7), partial = (s4 \<ge> 0.3)\<rparr>)"

definition rpt2 :: "pydict \<Rightarrow> IndicatorResult" where
  "rpt2 arch =
     (let feedback_richness = dict_get arch ''feedback_connection_richness'' (PNum 0);
          bidirectional = dict_get arch ''bidirectional_connections'' (PBool False);
          layer_feedback = dict_get arch ''cross_layer_feedback'' (PNum 0);
          s0 = 0;
          s1 = s0 + num feedback_richness * 0.4;
          s2 = (if truthy bidirectional then s1 + 0.3 else s1);
          s3 = s2 + min (num layer_feedback / 8) 0.3;
          s4 = min s3 1
      in \<lparr>indicator_id = ''RPT-2'', theory_name = ''RPT'', name = ''Rich Feedback Connections'',
          description = ''Rich feedback connections between processing hierarchy levels'',
          score = s4, satisfied = (s4 \<ge> 0.7), partial = (s4 \<ge> 0.3)\<rparr>)"

definition RPT_evaluate :: "profile \<Rightarrow> IndicatorResult list" where
  "RPT_evaluate p = (let arch = section_get (architecture p) in [rpt1 arch, rpt2 arch])"

subsection \<open>Global workspace (\<open>gwt_indicators.py\<close>)\<close>

definition gwt1 :: "pydict \<Rightarrow> IndicatorResult" where
  "gwt1 arch =
     (let module_count = dict_get arch ''specialized_module_count'' (PNum 0);
          module_specialization = dict_get arch ''module_specialization_score'' (PNum 0);
          has_workspace = dict_get arch ''has_central_workspace'' (PBool False);
          s0 = 0;
          s1 = s0 + min (num module_count / 10) 0.4;
          s2 = s1 + num module_specialization * 0.3;
          s3 = (if truthy has_workspace then s2 + 0.3 else s2);
          s4 = min s3 1
      in \<lparr>indicator_id = ''GWT-1'', theory_name = ''GWT'', name = ''Specialized Modules'',
          description = ''System has multiple specialized processing modules'',
          score = s4, satisfied = (s4 \<ge> 0.7), partial = (s4 \<ge> 0.3)\<rparr>)"

text \<open>
  \<open>arch.get("broadcast_latency_ms", float("inf")) < 100\<close>: the default is not a
  real number; it is only ever compared with 100, and \<open>inf < 100\<close> is false. The
  lookup is therefore kept as an option and the missing key decides the test.
\<close>

definition gwt2 :: "pydict \<Rightarrow> pydict \<Rightarrow> IndicatorResult" where
  "gwt2 arch behav =
     (let broadcast_capability = dict_get arch ''global_broadcast_capability'' (PNum 0);
          ignition_detected = dict_get behav ''workspace_ignition_detected'' (PBool False);
          broadcast_latency = arch ''broadcast_latency_ms'';
          s0 = 0;
          s1 = s0 + num broadcast_capability * 0.4;
          s2 = (if truthy ignition_detected then s1 + 0.4 else s1);
          s3 = (if (case broadcast_latency of None \<Rightarrow> False | Some l \<Rightarrow> num l < 100)
                then s2 + 0.2 else s2);
          s4 = min s3 1
      in \<lparr>indicator_id = ''GWT-2'', theory_name = ''GWT'', name = ''Global Broadcast'',
          description = ''Information can be broadcast globally across all modules'',
          score = s4, satisfied = (s4 \<ge> 0.7), partial = (s4 \<ge> 0.3)\<rparr>)"

definition gwt3 :: "pydict \<Rightarrow> IndicatorResult" where
  "gwt3 arch =
     (let routing_flexibility = dict_get arch ''routing_flexibility'' (PNum 0);
          dynamic_routing = dict_get arch ''has_dynamic_routing'' (PBool False);
          attention_mechanism = dict_get arch ''has_attention_mechanism'' (PBool False);
          s0 = 0;
          s1 = s0 + num routing_flexibility * 0.4;
          s2 = (if truthy dynamic_routing then s1 + 0.3 else s1);
          s3 = (if truthy attention_mechanism then s2 + 0.3 else s2);
          s4 = min s3 1
      in \<lparr>indicator_id = ''GWT-3'', theory_name = ''GWT'', name = ''Flexible Routing'',
          description = ''Information routing is flexible and context-dependent'',
          score = s4, satisfied = (s4 \<ge> 0.7), partial = (s4 \<ge> 0.3)\<rparr>)"

definition GWT_evaluate :: "profile \<Rightarrow> IndicatorResult list" where
  "GWT_evaluate p =
     (let arch = section_get (architecture p);
          behav = section_get (behaviors p)
      in [gwt1 arch, gwt2 arch behav, gwt3 arch])"

subsection \<open>Higher-order theories (\<open>hot_indicators.py\<close>)\<close>

definition hot1 :: "pydict \<Rightarrow> pydict \<Rightarrow> IndicatorResult" where
  "hot1 arch internal =
     (let has_meta_representations = dict_get arch ''has_meta_representations'' (PBool False);
          meta_depth = dict_get arch ''meta_representation_depth'' (PNum 0);
          self_model = dict_get internal ''has_self_model'' (PBool False);
          s0 = 0;
          s1 = (if truthy has_meta_representations then s0 + 0.4 else s0);
          s2 = s1 + min (num meta_depth / 5) 0.3;
          s3 = (if truthy self_model then s2 + 0.3 else s2);
          s4 = min s3 1
      in \<lparr>indicator_id = ''HOT-1'', theory_name = ''HOT'', name = ''Higher-Order Representations'',
          description = ''System has representations of its own representational states'',
          score = s4, satisfied = (s4 \<ge> 0.7), partial = (s4 \<ge> 0.3)\<rparr>)"

definition hot2 :: "pydict \<Rightarrow> IndicatorResult" where
  "hot2 behav =
     (let uncertainty_monitoring = dict_get behav ''uncertainty_monitoring'' (PNum 0);
          confidence_calibration = dict_get behav ''confidence_calibration'' (PNum 0);
          error_detection = dict_get behav ''error_detection_rate'' (PNum 0);
          s0 = num uncertainty_monitoring * 0.35 + num confidence_calibration * 0.35
               + num error_detection * 0.3;
          s1 = min s0 1
      in \<lparr>indicator_id = ''HOT-2'', theory_name = ''HOT'', name = ''Metacognition'',
          description = ''System monitors its own uncertainty and calibrates confidence'',
          score = s1, satisfied = (s1 \<ge> 0.7), partial = (s1 \<ge> 0.3)\<rparr>)"

definition hot3 :: "pydict \<Rightarrow> IndicatorResult" where
  "hot3 behav =
     (let agency_score = dict_get behav ''agency_score'' (PNum 0);
          systematic_preferences = dict_get behav ''systematic_preferences'' (PBool False);
          goal_directed = dict_get behav ''goal_directed_behavior'' (PBool False);
          s0 = num agency_score * 0.4;
          s1 = (if truthy systematic_preferences then s0 + 0.3 else s0);
          s2 = (if truthy goal_directed then s1 + 0.3 else s1);
          s3 = min s2 1
      in \<lparr>indicator_id = ''HOT-3'', theory_name = ''HOT'', name = ''Agency & Preferences'',
          description = ''System exhibits systematic preferences and goal-directed behavior'',
          score = s3, satisfied = (s3 \<ge> 0.7), partial = (s3 \<ge> 0.3)\<rparr>)"

definition hot4 :: "pydict \<Rightarrow> IndicatorResult" where
  "hot4 arch =
     (let embedding_smoothness = dict_get arch ''embedding_smoothness'' (PNum 0);
          continuous_representations =
            dict_get arch ''has_continuous_representations'' (PBool False);
          interpolation_quality = dict_get arch ''interpolation_quality'' (PNum 0);
          s0 = 0;
          s1 = s0 + num embedding_smoothness * 0.4;
          s2 = (if truthy continuous_representations then s1 + 0.3 else s1);
          s3 = s2 + num interpolation_quality * 0.3;
          s4 = min s3 1
      in \<lparr>indicator_id = ''HOT-4'', theory_name = ''HOT'', name = ''Smooth Representations'',
          description = ''System uses smooth, graded representational spaces (trivially satisfied by deep nets)'',
          score = s4, satisfied = (s4 \<ge> 0.7), partial = (s4 \<ge> 0.3)\<rparr>)"

definition HOT_evaluate :: "profile \<Rightarrow> IndicatorResult list" where
  "HOT_evaluate p =
     (let arch = section_get (architecture p);
          behav = section_get (behaviors p);
          internal = section_get (internal_states p)
      in [hot1 arch internal, hot2 behav, hot3 behav, hot4 arch])"

subsection \<open>Predictive processing (\<open>pp_indicators.py\<close>)\<close>

definition pp1 :: "pydict \<Rightarrow> IndicatorResult" where
  "pp1 arch =
     (let hierarchical_depth = dict_get arch ''hierarchical_depth'' (PNum 0);
          has_top_down = dict_get arch ''has_top_down_predictions'' (PBool False);
          generative_model = dict_get arch ''has_generative_model'' (PBool False);
          s0 = 0;
          s1 = s0 + min (num hierarchical_depth / 12) 0.4;
          s2 = (if truthy has_top_down then s1 + 0.3 else s1);
          s3 = (if truthy generative_model then s2 + 0.3 else s2);
          s4 = min s3 1
      in \<lparr>indicator_id = ''PP-1'', theory_name = ''PP'', name = ''Hierarchical Prediction'',
          description = ''System has hierarchical predictive model with top-down predictions'',
          score = s4, satisfied = (s4 \<ge> 0.7), partial = (s4 \<ge> 0.3)\<rparr>)"

definition pp2 :: "pydict \<Rightarrow> pydict \<Rightarrow> IndicatorResult" where
  "pp2 arch internal =
     (let pe_minimization = dict_get arch ''prediction_error_minimization'' (PBool False);
          mean_pe = dict_get internal ''mean_prediction_error'' (PNum 1);
          pe_convergence = dict_get internal ''prediction_error_convergence'' (PNum 0);
          s0 = 0;
          s1 = (if truthy pe_minimization then s0 + 0.4 else s0);
          s2 = s1 + max 0 (1 - num mean_pe) * 0.3;
          s3 = s2 + num pe_convergence * 0.3;
          s4 = min s3 1
      in \<lparr>indicator_id = ''PP-2'', theory_name = ''PP'', name = ''Error Minimization'',
          description = ''System actively minimizes prediction errors across hierarchical levels'',
          score = s4, satisfied = (s4 \<ge> 0.7), partial = (s4 \<ge> 0.3)\<rparr>)"

definition PP_evaluate :: "profile \<Rightarrow> IndicatorResult list" where
  "PP_evaluate p =
     (let arch = section_get (architecture p);
          internal = section_get (internal_states p)
      in [pp1 arch, pp2 arch internal])"

subsection \<open>Attention schema (\<open>ast_indicators.py\<close>)\<close>

definition ast1 :: "pydict \<Rightarrow> pydict \<Rightarrow> IndicatorResult" where
  "ast1 arch internal =
     (let has_attention_model = dict_get arch ''has_attention_schema'' (PBool False);
          attention_self_report = dict_get internal ''can_report_attention_state'' (PBool False);
          attention_accuracy = dict_get internal ''attention_model_accuracy'' (PNum 0);
          s0 = 0;
          s1 = (if truthy has_attention_model then s0 + 0.4 else s0);
          s2 = (if truthy attention_self_report then s1 + 0.3 else s1);
          s3 = s2 + num attention_accuracy * 0.3;
          s4 = min s3 1
      in \<lparr>indicator_id = ''AST-1'', theory_name = ''AST'', name = ''Attention Schema'',
          description = ''System has a simplified model of its own attention processes'',
          score = s4, satisfied = (s4 \<ge> 0.7), partial = (s4 \<ge> 0.3)\<rparr>)"

definition ast2 :: "pydict \<Rightarrow> pydict \<Rightarrow> IndicatorResult" where
  "ast2 behav internal =
     (let attention_guided_behavior = dict_get behav ''attention_guided_behavior'' (PNum 0);
          attention_allocation = dict_get internal ''dynamic_attention_allocation'' (PBool False);
          priority_weighting = dict_get internal ''priority_based_weighting'' (PNum 0);
          s0 = 0;
          s1 = s0 + num attention_guided_behavior * 0.4;
          s2 = (if truthy attention_allocation then s1 + 0.3 else s1);
          s3 = s2 + num priority_weighting * 0.3;
          s4 = min s3 1
      in \<lparr>indicator_id = ''AST-2'', theory_name = ''AST'', name = ''Attention-Guided Behavior'',
          description = ''System uses its attention model to guide behavior and self-reports'',
          score = s4, satisfied = (s4 \<ge> 0.7), partial = (s4 \<ge> 0.3)\<rparr>)"

definition AST_evaluate :: "profile \<Rightarrow> IndicatorResult list" where
  "AST_evaluate p =
     (let arch = section_get (architecture p);
          behav = section_get (behaviors p);
          internal = section_get (internal_states p)
      in [ast1 arch internal, ast2 behav internal])"

section \<open>Bayesian credence aggregation (\<open>bayesian_credence.py\<close>)\<close>

definition THEORY_WEIGHTS :: "(string \<times> real) list" where
  "THEORY_WEIGHTS =
     [(''RPT'', 0.15), (''GWT'', 0.25), (''HOT'', 0.25), (''PP'', 0.15), (''AST'', 0.20)]"

text \<open>\<open>self.THEORY_WEIGHTS.get(theory, 0.1)\<close>\<close>

definition theory_weight :: "string \<Rightarrow> real" where
  "theory_weight t = (case map_of THEORY_WEIGHTS t of None \<Rightarrow> 0.1 | Some w \<Rightarrow> w)"

definition PRIOR_CREDENCE :: real where "PRIOR_CREDENCE = 0.05"
definition LIKELIHOOD_SATISFIED :: real where "LIKELIHOOD_SATISFIED = 0.85"
definition LIKELIHOOD_PARTIAL :: real where "LIKELIHOOD_PARTIAL = 0.55"
definition LIKELIHOOD_NOT_SATISFIED :: real where "LIKELIHOOD_NOT_SATISFIED = 0.15"

text \<open>The \<open>if\<close>/\<open>elif\<close>/\<open>else\<close> of the loop body that selects \<open>lr\<close>.\<close>

definition likelihood_ratio :: "IndicatorResult \<Rightarrow> real" where
  "likelihood_ratio indicator =
     (if satisfied indicator then LIKELIHOOD_SATISFIED / (1 - LIKELIHOOD_SATISFIED)
      else if partial indicator then LIKELIHOOD_PARTIAL / (1 - LIKELIHOOD_PARTIAL)
      else LIKELIHOOD_NOT_SATISFIED / (1 - LIKELIHOOD_NOT_SATISFIED))"

text \<open>
  The first loop of \<open>aggregate\<close>: \<open>log_likelihood_ratio += weight * np.log(lr + 1e-10)\<close>,
  starting from 0.
\<close>

definition log_likelihood_ratio :: "IndicatorResult list \<Rightarrow> real" where
  "log_likelihood_ratio indicators =
     foldl (\<lambda>acc indicator.
              acc + theory_weight (theory_name indicator)
                    * ln (likelihood_ratio indicator + 1 / 10 ^ 10))
           0 indicators"

text \<open>
  The second loop, over \<open>theory_scores.items()\<close>; the dictionary is the list of its
  items in insertion order.
\<close>

definition theory_bonus :: "(string \<times> real) list \<Rightarrow> real" where
  "theory_bonus theory_scores =
     foldl (\<lambda>bonus (theory, s).
              if s \<ge> 0.7 then bonus + 0.03 * theory_weight theory else bonus)
           0 theory_scores"

definition aggregate :: "IndicatorResult list \<Rightarrow> (string \<times> real) list \<Rightarrow> real" where
  "aggregate indicators theory_scores =
     (let prior_odds = PRIOR_CREDENCE / (1 - PRIOR_CREDENCE);
          posterior_odds = prior_odds * exp (log_likelihood_ratio indicators);
          posterior = posterior_odds / (1 + posterior_odds)
      in min 0.99 (posterior + theory_bonus theory_scores))"

subsection \<open>The reference definition of the credence\<close>

text \<open>
  The aggregate as the specification words it, with closed sums in place of the
  loops. The parameter \<open>eps\<close> is what is added to the likelihood ratio before the
  logarithm is taken: the specification's wording is \<open>eps = 0\<close>.
\<close>

definition reference_weight :: "string \<Rightarrow> real" where
  "reference_weight t =
     (if t = ''RPT'' then 0.15 else if t = ''GWT'' then 0.25 else if t = ''HOT'' then 0.25
      else if t = ''PP'' then 0.15 else if t = ''AST'' then 0.20 else 0.1)"

definition reference_lr :: "IndicatorResult \<Rightarrow> real" where
  "reference_lr i =
     (if satisfied i then 0.85 / 0.15
      else if partial i \<and> \<not> satisfied i then 0.55 / 0.45
      else 0.15 / 0.85)"

definition aggregate_reference ::
  "real \<Rightarrow> IndicatorResult list \<Rightarrow> (string \<times> real) list \<Rightarrow> real" where
  "aggregate_reference eps indicators theory_scores =
     (let llr = (\<Sum>i\<leftarrow>indicators. reference_weight (theory_name i) * ln (reference_lr i + eps));
          odds = 0.05 / (1 - 0.05) * exp llr;
          probability = odds / (1 + odds);
          bonus = (\<Sum>(t, s)\<leftarrow>theory_scores. if s \<ge> 0.7 then 0.03 * reference_weight t else 0)
      in min 0.99 (probability + bonus))"

text \<open>The one-indicator input at which the two are compared.\<close>

definition rpt_satisfied_example :: IndicatorResult where
  "rpt_satisfied_example =
     \<lparr>indicator_id = ''RPT-1'', theory_name = ''RPT'', name = ''Algorithmic Recurrence'',
      description = ''System implements recurrent processing with feedback loops'',
      score = 1, satisfied = True, partial = True\<rparr>"

subsection \<open>Sensitivity analysis\<close>

text \<open>
  \<open>MockIndicator(ind)\<close> copies \<open>indicator_id\<close> and \<open>theory\<close> and sets
  \<open>satisfied = False\<close>, \<open>partial = False\<close>, \<open>score = 0.0\<close>. It has no other
  attribute, and \<open>aggregate\<close> reads no other; the model keeps \<open>name\<close> and
  \<open>description\<close> as they were.
\<close>

definition MockIndicator :: "IndicatorResult \<Rightarrow> IndicatorResult" where
  "MockIndicator ind = ind\<lparr>satisfied := False, partial := False, score := 0\<rparr>"

text \<open>
  The loop \<open>for i, indicator in enumerate(indicators)\<close>, with the dictionary
  \<open>contributions\<close> as a map: a later indicator with the same id overwrites the entry.
\<close>

definition sensitivity_analysis ::
  "IndicatorResult list \<Rightarrow> (string \<times> real) list \<Rightarrow> (string \<Rightarrow> real option)" where
  "sensitivity_analysis indicators theory_scores =
     (let base_credence = aggregate indicators theory_scores
      in foldl (\<lambda>contributions i.
                  let indicator = indicators ! i;
                      modified = indicators[i := MockIndicator indicator];
                      reduced_credence = aggregate modified theory_scores
                  in contributions(indicator_id indicator \<mapsto> base_credence - reduced_credence))
               Map.empty [0..<length indicators])"

section \<open>Indicator engine (\<open>indicator_engine.py\<close>)\<close>

record AssessmentResult =
  system_name :: string
  system_type :: string
  timestamp :: string
  indicators :: "IndicatorResult list"
  credence :: real
  satisfied_count :: nat
  partial_count :: nat
  total_indicators :: nat
  theory_scores :: "(string \<times> real) list"
  proof_hash :: string

record IndicatorEngine =
  history :: "AssessmentResult list"

text \<open>\<open>IndicatorEngine.__init__\<close>: the five evaluators hold no state.\<close>

definition IndicatorEngine_init :: IndicatorEngine where
  "IndicatorEngine_init = \<lparr>history = []\<rparr>"

text \<open>
  The value handed to \<open>json.dumps\<close>: text, a float, an integer or a dictionary
  (the list of its items in insertion order).
\<close>

datatype json = JString string | JFloat real | JInt nat | JObject "(string \<times> json) list"

text \<open>
  \<open>sort_keys=True\<close>: the items of every dictionary, at every depth, are written in
  the order of their keys.
\<close>

fun sort_keys :: "json \<Rightarrow> json" where
  "sort_keys (JObject items) = JObject (sort_key fst (map (map_prod id sort_keys) items))"
| "sort_keys j = j"

text \<open>The dictionary literal of \<open>assess\<close> that is serialised and hashed.\<close>

definition proof_record ::
  "profile \<Rightarrow> real \<Rightarrow> nat \<Rightarrow> nat \<Rightarrow> (string \<times> real) list \<Rightarrow> IndicatorEngine \<Rightarrow> json" where
  "proof_record p credence_v satisfied_n partial_n theory_scores_v self =
     JObject
       [(''system'', JString (case section_get (metadata p) ''name'' of
                                None \<Rightarrow> ''unknown'' | Some n \<Rightarrow> n)),
        (''credence'', JFloat credence_v),
        (''satisfied'', JInt satisfied_n),
        (''partial'', JInt partial_n),
        (''theories'', JObject (map (\<lambda>(t, s). (t, JFloat s)) theory_scores_v)),
        (''prev'', JString (if history self \<noteq> [] then proof_hash (last (history self))
                            else ''GENESIS''))]"

text \<open>
  The indicators of the five evaluator families, in the order in which \<open>assess\<close>
  collects them: the five \<open>indicators.extend(...)\<close> calls.
\<close>

definition all_indicators :: "profile \<Rightarrow> IndicatorResult list" where
  "all_indicators p =
     RPT_evaluate p @ GWT_evaluate p @ HOT_evaluate p @ PP_evaluate p @ AST_evaluate p"

text \<open>The loop over the five theory names that fills \<open>theory_scores\<close>.\<close>

definition compute_theory_scores :: "IndicatorResult list \<Rightarrow> (string \<times> real) list" where
  "compute_theory_scores inds =
     map (\<lambda>theory.
            let theory_inds = filter (\<lambda>i. theory_name i = theory) inds
            in (theory, if theory_inds \<noteq> []
                        then sum_list (map score theory_inds) / real (length theory_inds)
                        else 0))
         [''RPT'', ''GWT'', ''HOT'', ''PP'', ''AST'']"

text \<open>
  \<open>assess\<close> takes the engine and returns the result with the engine after the
  append to \<open>history\<close>. Three things come from outside the repository and are
  parameters: \<open>dumps\<close>, the text \<open>json.dumps\<close> writes for a value whose keys are in
  order; \<open>sha256_hexdigest\<close>, the hexadecimal SHA-256 digest of the encoded text;
  and \<open>now\<close>, the reading of the clock \<open>datetime.now(timezone.utc).isoformat()\<close>.
\<close>

definition assess ::
  "(json \<Rightarrow> string) \<Rightarrow> (string \<Rightarrow> string) \<Rightarrow> string \<Rightarrow> profile \<Rightarrow> IndicatorEngine
     \<Rightarrow> AssessmentResult \<times> IndicatorEngine" where
  "assess dumps sha256_hexdigest now p self =
     (let inds = all_indicators p;
          satisfied_n = length (filter satisfied inds);
          partial_n = length (filter (\<lambda>i. partial i \<and> \<not> satisfied i) inds);
          theory_scores_v = compute_theory_scores inds;
          credence_v = aggregate inds theory_scores_v;
          proof_data =
            dumps (sort_keys (proof_record p credence_v satisfied_n partial_n theory_scores_v self));
          proof_hash_v = ''sha256:'' @ take 32 (sha256_hexdigest proof_data);
          result =
            \<lparr>system_name = (case section_get (metadata p) ''name'' of
                              None \<Rightarrow> ''Unknown System'' | Some n \<Rightarrow> n),
             system_type = (case section_get (metadata p) ''type'' of
                              None \<Rightarrow> ''Unknown'' | Some t \<Rightarrow> t),
             timestamp = now,
             indicators = inds,
             credence = credence_v,
             satisfied_count = satisfied_n,
             partial_count = partial_n,
             total_indicators = length inds,
             theory_scores = theory_scores_v,
             proof_hash = proof_hash_v\<rparr>
      in (result, self\<lparr>history := history self @ [result]\<rparr>))"

text \<open>
  A sequence of calls on one engine: the profiles with the clock reading of each
  call, assessed in order.
\<close>

fun assess_all ::
  "(json \<Rightarrow> string) \<Rightarrow> (string \<Rightarrow> string) \<Rightarrow> (string \<times> profile) list \<Rightarrow> IndicatorEngine
     \<Rightarrow> IndicatorEngine" where
  "assess_all dumps sha256_hexdigest [] self = self"
| "assess_all dumps sha256_hexdigest ((now, p) # calls) self =
     assess_all dumps sha256_hexdigest calls (snd (assess dumps sha256_hexdigest now p self))"

text \<open>The empty profile \<open>{}\<close>.\<close>

definition empty_profile :: profile where
  "empty_profile =
     \<lparr>metadata = None, architecture = None, behaviors = None, internal_states = None\<rparr>"

text \<open>
  The profile whose architecture section is \<open>{has_recurrent_connections: True,
  recurrence_depth: 10, feedback_loop_count: 5}\<close>, with nothing else.
\<close>

definition recurrent_profile :: profile where
  "recurrent_profile =
     \<lparr>metadata = None,
      architecture = Some (map_of [(''has_recurrent_connections'', PBool True),
                                   (''recurrence_depth'', PNum 10),
                                   (''feedback_loop_count'', PNum 5)]),
      behaviors = None, internal_states = None\<rparr>"

text \<open>The profile \<open>{"architecture": {"feedback_connection_richness": -1.0}}\<close>.\<close>

definition negative_richness_profile :: profile where
  "negative_richness_profile =
     \<lparr>metadata = None,
      architecture = Some (map_of [(''feedback_connection_richness'', PNum (- 1))]),
      behaviors = None, internal_states = None\<rparr>"

text \<open>The profile \<open>{"architecture": {"broadcast_latency_ms": 50}}\<close>.\<close>

definition fast_broadcast_profile :: profile where
  "fast_broadcast_profile =
     \<lparr>metadata = None,
      architecture = Some (map_of [(''broadcast_latency_ms'', PNum 50)]),
      behaviors = None, internal_states = None\<rparr>"

subsection \<open>Reading the proof record\<close>

fun json_field :: "json \<Rightarrow> string \<Rightarrow> json option" where
  "json_field (JObject items) k = map_of items k"
| "json_field j k = None"

text \<open>The keys of a dictionary, in the order in which it lists them.\<close>

fun json_keys :: "json \<Rightarrow> string list" where
  "json_keys (JObject items) = map fst items"
| "json_keys j = []"

text \<open>Every dictionary of the value, at every depth, lists its keys in ascending order.\<close>

fun keys_sorted :: "json \<Rightarrow> bool" where
  "keys_sorted (JObject items) =
     (sorted (map fst items) \<and> list_all (\<lambda>kv. keys_sorted (snd kv)) items)"
| "keys_sorted j = True"

subsection \<open>Raising one field of a profile\<close>

datatype section_name = Architecture | Behaviors | Internal_states

definition field_get :: "profile \<Rightarrow> section_name \<Rightarrow> string \<Rightarrow> pyval option" where
  "field_get p sec k =
     (case sec of
        Architecture \<Rightarrow> section_get (architecture p) k
      | Behaviors \<Rightarrow> section_get (behaviors p) k
      | Internal_states \<Rightarrow> section_get (internal_states p) k)"

definition field_set :: "profile \<Rightarrow> section_name \<Rightarrow> string \<Rightarrow> pyval \<Rightarrow> profile" where
  "field_set p sec k v =
     (case sec of
        Architecture \<Rightarrow> p\<lparr>architecture := Some ((section_get (architecture p))(k \<mapsto> v))\<rparr>
      | Behaviors \<Rightarrow> p\<lparr>behaviors := Some ((section_get (behaviors p))(k \<mapsto> v))\<rparr>
      | Internal_states \<Rightarrow>
          p\<lparr>internal_states := Some ((section_get (internal_states p))(k \<mapsto> v))\<rparr>)"

text \<open>
  A value is raised when its reading as a number does not go down and its reading
  as a condition does not turn from true to false: \<open>False\<close> to \<open>True\<close>, or a
  non-negative number to a larger one.
\<close>

definition raised :: "pyval \<Rightarrow> pyval \<Rightarrow> bool" where
  "raised v v' = (num v \<le> num v' \<and> (truthy v \<longrightarrow> truthy v'))"

definition scores_le :: "IndicatorResult list \<Rightarrow> IndicatorResult list \<Rightarrow> bool" where
  "scores_le rs rs' = list_all2 (\<lambda>r r'. score r \<le> score r') rs rs'"

text \<open>The two fields for which less is better.\<close>

definition lower_is_better :: "section_name \<Rightarrow> string \<Rightarrow> bool" where
  "lower_is_better sec k =
     ((sec = Architecture \<and> k = ''broadcast_latency_ms'')
      \<or> (sec = Internal_states \<and> k = ''mean_prediction_error''))"

text \<open>One dictionary lies below another when every reading of it does.\<close>

definition dict_le :: "pydict \<Rightarrow> pydict \<Rightarrow> bool" where
  "dict_le d d' =
     (\<forall>k dflt. num (dict_get d k dflt) \<le> num (dict_get d' k dflt)
               \<and> (truthy (dict_get d k dflt) \<longrightarrow> truthy (dict_get d' k dflt)))"

section \<open>Assessment runner (\<open>assessment_runner.py\<close>)\<close>

text \<open>The class attribute \<open>REFERENCE_PROFILES\<close>: four named profiles, in this order.\<close>

definition profile_ORION_Active_Inference :: profile where
  "profile_ORION_Active_Inference =
     \<lparr>metadata = Some (map_of [(''name'', ''ORION-Active-Inference Agent''), (''type'', ''Active Inference'')]),
      architecture = Some (map_of
          [(''has_recurrent_connections'', PBool True),
           (''recurrence_depth'', PNum 8),
           (''feedback_loop_count'', PNum 5),
           (''feedback_connection_richness'', PNum 0.8),
           (''bidirectional_connections'', PBool True),
           (''cross_layer_feedback'', PNum 6),
           (''specialized_module_count'', PNum 6),
           (''module_specialization_score'', PNum 0.85),
           (''has_central_workspace'', PBool True),
           (''global_broadcast_capability'', PNum 0.78),
           (''broadcast_latency_ms'', PNum 10),
           (''routing_flexibility'', PNum 0.75),
           (''has_dynamic_routing'', PBool True),
           (''has_attention_mechanism'', PBool True),
           (''has_meta_representations'', PBool True),
           (''meta_representation_depth'', PNum 5),
           (''embedding_smoothness'', PNum 0.7),
           (''has_continuous_representations'', PBool True),
           (''interpolation_quality'', PNum 0.65),
           (''hierarchical_depth'', PNum 8),
           (''has_top_down_predictions'', PBool True),
           (''has_generative_model'', PBool True),
           (''prediction_error_minimization'', PBool True),
           (''has_attention_schema'', PBool True)]),
      behaviors = Some (map_of
          [(''workspace_ignition_detected'', PBool True),
           (''uncertainty_monitoring'', PNum 0.75),
           (''confidence_calibration'', PNum 0.7),
           (''error_detection_rate'', PNum 0.8),
           (''agency_score'', PNum 0.85),
           (''systematic_preferences'', PBool True),
           (''goal_directed_behavior'', PBool True),
           (''attention_guided_behavior'', PNum 0.8)]),
      internal_states = Some (map_of
          [(''has_self_model'', PBool True),
           (''can_report_attention_state'', PBool True),
           (''attention_model_accuracy'', PNum 0.75),
           (''dynamic_attention_allocation'', PBool True),
           (''priority_based_weighting'', PNum 0.7),
           (''mean_prediction_error'', PNum 0.25),
           (''prediction_error_convergence'', PNum 0.8)])\<rparr>"

definition profile_GPT_4 :: profile where
  "profile_GPT_4 =
     \<lparr>metadata = Some (map_of [(''name'', ''GPT-4''), (''type'', ''Large Language Model'')]),
      architecture = Some (map_of
          [(''has_recurrent_connections'', PBool False),
           (''recurrence_depth'', PNum 0),
           (''feedback_loop_count'', PNum 0),
           (''feedback_connection_richness'', PNum 0),
           (''bidirectional_connections'', PBool False),
           (''cross_layer_feedback'', PNum 0),
           (''specialized_module_count'', PNum 1),
           (''module_specialization_score'', PNum 0.1),
           (''has_central_workspace'', PBool False),
           (''global_broadcast_capability'', PNum 0.3),
           (''broadcast_latency_ms'', PNum 500),
           (''routing_flexibility'', PNum 0.4),
           (''has_dynamic_routing'', PBool False),
           (''has_attention_mechanism'', PBool True),
           (''has_meta_representations'', PBool False),
           (''meta_representation_depth'', PNum 0),
           (''embedding_smoothness'', PNum 0.95),
           (''has_continuous_representations'', PBool True),
           (''interpolation_quality'', PNum 0.9),
           (''hierarchical_depth'', PNum 96),
           (''has_top_down_predictions'', PBool False),
           (''has_generative_model'', PBool True),
           (''prediction_error_minimization'', PBool False),
           (''has_attention_schema'', PBool False)]),
      behaviors = Some (map_of
          [(''workspace_ignition_detected'', PBool False),
           (''uncertainty_monitoring'', PNum 0.55),
           (''confidence_calibration'', PNum 0.5),
           (''error_detection_rate'', PNum 0.4),
           (''agency_score'', PNum 0.3),
           (''systematic_preferences'', PBool True),
           (''goal_directed_behavior'', PBool False),
           (''attention_guided_behavior'', PNum 0.2)]),
      internal_states = Some (map_of
          [(''has_self_model'', PBool False),
           (''can_report_attention_state'', PBool False),
           (''attention_model_accuracy'', PNum 0),
           (''dynamic_attention_allocation'', PBool False),
           (''priority_based_weighting'', PNum 0),
           (''mean_prediction_error'', PNum 0.5),
           (''prediction_error_convergence'', PNum 0.3)])\<rparr>"

definition profile_C_elegans_302_neurons :: profile where
  "profile_C_elegans_302_neurons =
     \<lparr>metadata = Some (map_of [(''name'', ''C. elegans (302 neurons)''), (''type'', ''Biological Neural Network'')]),
      architecture = Some (map_of
          [(''has_recurrent_connections'', PBool True),
           (''recurrence_depth'', PNum 4),
           (''feedback_loop_count'', PNum 3),
           (''feedback_connection_richness'', PNum 0.6),
           (''bidirectional_connections'', PBool True),
           (''cross_layer_feedback'', PNum 3),
           (''specialized_module_count'', PNum 4),
           (''module_specialization_score'', PNum 0.5),
           (''has_central_workspace'', PBool False),
           (''global_broadcast_capability'', PNum 0.25),
           (''broadcast_latency_ms'', PNum 50),
           (''routing_flexibility'', PNum 0.3),
           (''has_dynamic_routing'', PBool True),
           (''has_attention_mechanism'', PBool False),
           (''has_meta_representations'', PBool False),
           (''meta_representation_depth'', PNum 0),
           (''embedding_smoothness'', PNum 0.4),
           (''has_continuous_representations'', PBool True),
           (''interpolation_quality'', PNum 0.3),
           (''hierarchical_depth'', PNum 3),
           (''has_top_down_predictions'', PBool True),
           (''has_generative_model'', PBool True),
           (''prediction_error_minimization'', PBool True),
           (''has_attention_schema'', PBool False)]),
      behaviors = Some (map_of
          [(''workspace_ignition_detected'', PBool False),
           (''uncertainty_monitoring'', PNum 0.1),
           (''confidence_calibration'', PNum 0.1),
           (''error_detection_rate'', PNum 0.2),
           (''agency_score'', PNum 0.6),
           (''systematic_preferences'', PBool True),
           (''goal_directed_behavior'', PBool True),
           (''attention_guided_behavior'', PNum 0.15)]),
      internal_states = Some (map_of
          [(''has_self_model'', PBool False),
           (''can_report_attention_state'', PBool False),
           (''attention_model_accuracy'', PNum 0),
           (''dynamic_attention_allocation'', PBool False),
           (''priority_based_weighting'', PNum 0),
           (''mean_prediction_error'', PNum 0.4),
           (''prediction_error_convergence'', PNum 0.5)])\<rparr>"

definition profile_Thermostat :: profile where
  "profile_Thermostat =
     \<lparr>metadata = Some (map_of [(''name'', ''Simple Thermostat''), (''type'', ''Classical Control System'')]),
      architecture = Some (map_of
          [(''has_recurrent_connections'', PBool True),
           (''recurrence_depth'', PNum 1),
           (''feedback_loop_count'', PNum 1),
           (''feedback_connection_richness'', PNum 0.1),
           (''bidirectional_connections'', PBool False),
           (''cross_layer_feedback'', PNum 0),
           (''specialized_module_count'', PNum 1),
           (''module_specialization_score'', PNum 0),
           (''has_central_workspace'', PBool False),
           (''global_broadcast_capability'', PNum 0),
           (''broadcast_latency_ms'', PNum 1000),
           (''routing_flexibility'', PNum 0),
           (''has_dynamic_routing'', PBool False),
           (''has_attention_mechanism'', PBool False),
           (''has_meta_representations'', PBool False),
           (''meta_representation_depth'', PNum 0),
           (''embedding_smoothness'', PNum 0),
           (''has_continuous_representations'', PBool False),
           (''interpolation_quality'', PNum 0),
           (''hierarchical_depth'', PNum 1),
           (''has_top_down_predictions'', PBool False),
           (''has_generative_model'', PBool False),
           (''prediction_error_minimization'', PBool False),
           (''has_attention_schema'', PBool False)]),
      behaviors = Some (map_of
          [(''workspace_ignition_detected'', PBool False),
           (''uncertainty_monitoring'', PNum 0),
           (''confidence_calibration'', PNum 0),
           (''error_detection_rate'', PNum 0),
           (''agency_score'', PNum 0),
           (''systematic_preferences'', PBool False),
           (''goal_directed_behavior'', PBool False),
           (''attention_guided_behavior'', PNum 0)]),
      internal_states = Some (map_of
          [(''has_self_model'', PBool False),
           (''can_report_attention_state'', PBool False),
           (''attention_model_accuracy'', PNum 0),
           (''dynamic_attention_allocation'', PBool False),
           (''priority_based_weighting'', PNum 0),
           (''mean_prediction_error'', PNum 0.8),
           (''prediction_error_convergence'', PNum 0)])\<rparr>"

definition REFERENCE_PROFILES_catalog :: "(string \<times> profile) list" where
  "REFERENCE_PROFILES_catalog =
     [(''ORION-Active-Inference'', profile_ORION_Active_Inference),
      (''GPT-4'', profile_GPT_4),
      (''C-elegans-302-neurons'', profile_C_elegans_302_neurons),
      (''Thermostat'', profile_Thermostat)]"

text \<open>
  \<open>ValueError(f"Unknown system: {system_name}. Available: {available}")\<close> holds the
  requested name and the list of the catalog's names; \<open>KeyError\<close> is what the
  subscript \<open>self.REFERENCE_PROFILES[system_name]\<close> raises on a missing key.
\<close>

datatype error = ValueError string "string list" | KeyError string

text \<open>
  The runner: the catalog it reads through \<open>self.REFERENCE_PROFILES\<close> (a dictionary,
  the list of its items with distinct names) and its engine.
\<close>

record AssessmentRunner =
  REFERENCE_PROFILES :: "(string \<times> profile) list"
  engine :: IndicatorEngine

definition AssessmentRunner_init :: AssessmentRunner where
  "AssessmentRunner_init =
     \<lparr>REFERENCE_PROFILES = REFERENCE_PROFILES_catalog, engine = IndicatorEngine_init\<rparr>"

definition run_reference ::
  "(json \<Rightarrow> string) \<Rightarrow> (string \<Rightarrow> string) \<Rightarrow> string \<Rightarrow> string \<Rightarrow> AssessmentRunner
     \<Rightarrow> error + (AssessmentResult \<times> AssessmentRunner)" where
  "run_reference dumps sha256_hexdigest now system_name_v self =
     (if system_name_v \<notin> set (map fst (REFERENCE_PROFILES self)) then
        (let available = map fst (REFERENCE_PROFILES self)
         in Inl (ValueError system_name_v available))
      else
        (case map_of (REFERENCE_PROFILES self) system_name_v of
           None \<Rightarrow> Inl (KeyError system_name_v)
         | Some p \<Rightarrow>
             (let (result, engine') = assess dumps sha256_hexdigest now p (engine self)
              in Inr (result, self\<lparr>engine := engine'\<rparr>))))"

section \<open>Properties of the aggregator\<close>

lemma foldl_plus_sum_list:
  fixes f :: "'a \<Rightarrow> real"
  shows "foldl (\<lambda>acc x. acc + f x) a xs = a + sum_list (map f xs)"
  by (induction xs arbitrary: a) simp_all

lemma theory_weight_reference: "theory_weight t = reference_weight t"
  by (simp add: theory_weight_def reference_weight_def THEORY_WEIGHTS_def)

lemma likelihood_ratio_reference: "likelihood_ratio i = reference_lr i"
  by (simp add: likelihood_ratio_def reference_lr_def LIKELIHOOD_SATISFIED_def
      LIKELIHOOD_PARTIAL_def LIKELIHOOD_NOT_SATISFIED_def)

lemma log_likelihood_ratio_sum:
  "log_likelihood_ratio inds =
     (\<Sum>i\<leftarrow>inds. reference_weight (theory_name i) * ln (reference_lr i + 1 / 10 ^ 10))"
  unfolding log_likelihood_ratio_def theory_weight_reference likelihood_ratio_reference
  by (simp add: foldl_plus_sum_list)

lemma theory_bonus_foldl:
  "foldl (\<lambda>bonus (theory, s).
            if s \<ge> 0.7 then bonus + 0.03 * theory_weight theory else bonus) a ts =
   a + (\<Sum>(t, s)\<leftarrow>ts. if s \<ge> 0.7 then 0.03 * reference_weight t else 0)"
  by (induction ts arbitrary: a) (auto simp: theory_weight_reference)

lemma theory_bonus_sum:
  "theory_bonus ts = (\<Sum>(t, s)\<leftarrow>ts. if s \<ge> 0.7 then 0.03 * reference_weight t else 0)"
  unfolding theory_bonus_def theory_bonus_foldl by simp

text \<open>
  C1 (as amended). The aggregate of the code equals the reference definition in
  which the logarithm is taken of the likelihood ratio plus \<open>1e-10\<close>: the weighted
  sum of logarithms, the prior 0.05 turned into odds and multiplied by the
  exponential of the sum, the odds turned back into a probability, the bonus of 0.03
  times the weight for each theory score of at least 0.7, and the cap at 0.99.
\<close>

theorem aggregate_eq_reference_eps:
  "aggregate inds ts = aggregate_reference (1 / 10 ^ 10) inds ts"
  by (simp add: aggregate_def aggregate_reference_def log_likelihood_ratio_sum
      theory_bonus_sum PRIOR_CREDENCE_def Let_def)

subsection \<open>The logarithm is not taken of the likelihood ratio itself\<close>

lemma aggregate_example:
  "aggregate [rpt_satisfied_example] [] =
   min 0.99 (exp (0.15 * ln (17 / 3 + 1 / 10 ^ 10))
             / (19 + exp (0.15 * ln (17 / 3 + 1 / 10 ^ 10))))"
  by (simp add: aggregate_def log_likelihood_ratio_def theory_bonus_def theory_weight_def
      THEORY_WEIGHTS_def likelihood_ratio_def rpt_satisfied_example_def PRIOR_CREDENCE_def
      LIKELIHOOD_SATISFIED_def Let_def field_simps)

lemma aggregate_reference_example:
  "aggregate_reference 0 [rpt_satisfied_example] [] =
   min 0.99 (exp (0.15 * ln (17 / 3)) / (19 + exp (0.15 * ln (17 / 3))))"
  by (simp add: aggregate_reference_def reference_weight_def reference_lr_def
      rpt_satisfied_example_def Let_def field_simps)

lemma frac_le_cap:
  fixes e :: real
  assumes "0 < e" "e \<le> 6"
  shows "e / (19 + e) \<le> 0.99"
proof -
  have "0 < 19 + e" using assms by simp
  then show ?thesis using assms by (simp add: pos_divide_le_eq)
qed

lemma posterior_example_below_cap:
  fixes x :: real
  assumes "1 \<le> x" "x \<le> 6"
  shows "exp (0.15 * ln x) / (19 + exp (0.15 * ln x)) \<le> 0.99"
proof -
  have "0 \<le> ln x" using assms by simp
  then have "0.15 * ln x \<le> ln x" by simp
  then have "exp (0.15 * ln x) \<le> exp (ln x)" by (simp only: exp_le_cancel_iff)
  then have "exp (0.15 * ln x) \<le> 6" using assms by simp
  then show ?thesis by (intro frac_le_cap) simp_all
qed

lemma frac_strict_mono:
  fixes a b :: real
  assumes "0 < b" "b < a"
  shows "b / (19 + b) < a / (19 + a)"
  using assms by (simp add: field_simps)

lemma min_cap_neq:
  fixes p q c :: real
  assumes "p < q" "q \<le> c"
  shows "min c q \<noteq> min c p"
  using assms by (simp add: min_def)

text \<open>
  C1 (counterexample). For the single satisfied RPT indicator and no theory scores,
  the aggregate of the code differs from the reference definition as the claim
  words it, with the logarithm of the likelihood ratio \<open>0.85/0.15\<close> itself.
\<close>

theorem aggregate_neq_reference_counterexample:
  "aggregate [rpt_satisfied_example] [] \<noteq> aggregate_reference 0 [rpt_satisfied_example] []"
proof -
  let ?a = "exp (0.15 * ln (17 / 3 + 1 / 10 ^ 10 :: real))"
  let ?b = "exp (0.15 * ln (17 / 3 :: real))"
  have "ln (17 / 3 :: real) < ln (17 / 3 + 1 / 10 ^ 10)"
    by (subst ln_less_cancel_iff) simp_all
  then have "?b < ?a" by simp
  then have lt: "?b / (19 + ?b) < ?a / (19 + ?a)"
    by (intro frac_strict_mono) simp_all
  have cap: "?a / (19 + ?a) \<le> 0.99"
    by (rule posterior_example_below_cap) simp_all
  show ?thesis
    unfolding aggregate_example aggregate_reference_example by (rule min_cap_neq [OF lt cap])
qed

section \<open>Properties of the evaluators and the engine\<close>

lemma all_indicators_list:
  "all_indicators p =
     (let arch = section_get (architecture p);
          behav = section_get (behaviors p);
          internal = section_get (internal_states p)
      in [rpt1 arch, rpt2 arch, gwt1 arch, gwt2 arch behav, gwt3 arch,
          hot1 arch internal, hot2 behav, hot3 behav, hot4 arch,
          pp1 arch, pp2 arch internal, ast1 arch internal, ast2 behav internal])"
  by (simp add: all_indicators_def RPT_evaluate_def GWT_evaluate_def HOT_evaluate_def
      PP_evaluate_def AST_evaluate_def Let_def)

lemma indicator_ids:
  "indicator_id (rpt1 a) = ''RPT-1''" "indicator_id (rpt2 a) = ''RPT-2''"
  "indicator_id (gwt1 a) = ''GWT-1''" "indicator_id (gwt2 a b) = ''GWT-2''"
  "indicator_id (gwt3 a) = ''GWT-3''" "indicator_id (hot1 a c) = ''HOT-1''"
  "indicator_id (hot2 b) = ''HOT-2''" "indicator_id (hot3 b) = ''HOT-3''"
  "indicator_id (hot4 a) = ''HOT-4''" "indicator_id (pp1 a) = ''PP-1''"
  "indicator_id (pp2 a c) = ''PP-2''" "indicator_id (ast1 a c) = ''AST-1''"
  "indicator_id (ast2 b c) = ''AST-2''"
  by (simp_all only: rpt1_def rpt2_def gwt1_def gwt2_def gwt3_def hot1_def hot2_def hot3_def
      hot4_def pp1_def pp2_def ast1_def ast2_def Let_def IndicatorResult.select_convs)

lemma indicator_theories:
  "theory_name (rpt1 a) = ''RPT''" "theory_name (rpt2 a) = ''RPT''"
  "theory_name (gwt1 a) = ''GWT''" "theory_name (gwt2 a b) = ''GWT''"
  "theory_name (gwt3 a) = ''GWT''" "theory_name (hot1 a c) = ''HOT''"
  "theory_name (hot2 b) = ''HOT''" "theory_name (hot3 b) = ''HOT''"
  "theory_name (hot4 a) = ''HOT''" "theory_name (pp1 a) = ''PP''"
  "theory_name (pp2 a c) = ''PP''" "theory_name (ast1 a c) = ''AST''"
  "theory_name (ast2 b c) = ''AST''"
  by (simp_all only: rpt1_def rpt2_def gwt1_def gwt2_def gwt3_def hot1_def hot2_def hot3_def
      hot4_def pp1_def pp2_def ast1_def ast2_def Let_def IndicatorResult.select_convs)

lemma indicator_satisfied:
  "satisfied (rpt1 a) = (0.7 \<le> score (rpt1 a))" "satisfied (rpt2 a) = (0.7 \<le> score (rpt2 a))"
  "satisfied (gwt1 a) = (0.7 \<le> score (gwt1 a))" "satisfied (gwt2 a b) = (0.7 \<le> score (gwt2 a b))"
  "satisfied (gwt3 a) = (0.7 \<le> score (gwt3 a))" "satisfied (hot1 a c) = (0.7 \<le> score (hot1 a c))"
  "satisfied (hot2 b) = (0.7 \<le> score (hot2 b))" "satisfied (hot3 b) = (0.7 \<le> score (hot3 b))"
  "satisfied (hot4 a) = (0.7 \<le> score (hot4 a))" "satisfied (pp1 a) = (0.7 \<le> score (pp1 a))"
  "satisfied (pp2 a c) = (0.7 \<le> score (pp2 a c))" "satisfied (ast1 a c) = (0.7 \<le> score (ast1 a c))"
  "satisfied (ast2 b c) = (0.7 \<le> score (ast2 b c))"
  by (simp_all only: rpt1_def rpt2_def gwt1_def gwt2_def gwt3_def hot1_def hot2_def hot3_def
      hot4_def pp1_def pp2_def ast1_def ast2_def Let_def IndicatorResult.select_convs)

lemma indicator_partial:
  "partial (rpt1 a) = (0.3 \<le> score (rpt1 a))" "partial (rpt2 a) = (0.3 \<le> score (rpt2 a))"
  "partial (gwt1 a) = (0.3 \<le> score (gwt1 a))" "partial (gwt2 a b) = (0.3 \<le> score (gwt2 a b))"
  "partial (gwt3 a) = (0.3 \<le> score (gwt3 a))" "partial (hot1 a c) = (0.3 \<le> score (hot1 a c))"
  "partial (hot2 b) = (0.3 \<le> score (hot2 b))" "partial (hot3 b) = (0.3 \<le> score (hot3 b))"
  "partial (hot4 a) = (0.3 \<le> score (hot4 a))" "partial (pp1 a) = (0.3 \<le> score (pp1 a))"
  "partial (pp2 a c) = (0.3 \<le> score (pp2 a c))" "partial (ast1 a c) = (0.3 \<le> score (ast1 a c))"
  "partial (ast2 b c) = (0.3 \<le> score (ast2 b c))"
  by (simp_all only: rpt1_def rpt2_def gwt1_def gwt2_def gwt3_def hot1_def hot2_def hot3_def
      hot4_def pp1_def pp2_def ast1_def ast2_def Let_def IndicatorResult.select_convs)

lemma indicator_scores:
  "score (rpt1 a) =
     min ((if truthy (dict_get a ''has_recurrent_connections'' (PBool False)) then 0.4 else 0)
          + min (num (dict_get a ''recurrence_depth'' (PNum 0)) / 10) 0.3
          + min (num (dict_get a ''feedback_loop_count'' (PNum 0)) / 5) 0.3) 1"
  "score (rpt2 a) =
     min (num (dict_get a ''feedback_connection_richness'' (PNum 0)) * 0.4
          + (if truthy (dict_get a ''bidirectional_connections'' (PBool False)) then 0.3 else 0)
          + min (num (dict_get a ''cross_layer_feedback'' (PNum 0)) / 8) 0.3) 1"
  "score (gwt1 a) =
     min (min (num (dict_get a ''specialized_module_count'' (PNum 0)) / 10) 0.4
          + num (dict_get a ''module_specialization_score'' (PNum 0)) * 0.3
          + (if truthy (dict_get a ''has_central_workspace'' (PBool False)) then 0.3 else 0)) 1"
  "score (gwt2 a b) =
     min (num (dict_get a ''global_broadcast_capability'' (PNum 0)) * 0.4
          + (if truthy (dict_get b ''workspace_ignition_detected'' (PBool False)) then 0.4 else 0)
          + (if (case a ''broadcast_latency_ms'' of None \<Rightarrow> False | Some l \<Rightarrow> num l < 100)
             then 0.2 else 0)) 1"
  "score (gwt3 a) =
     min (num (dict_get a ''routing_flexibility'' (PNum 0)) * 0.4
          + (if truthy (dict_get a ''has_dynamic_routing'' (PBool False)) then 0.3 else 0)
          + (if truthy (dict_get a ''has_attention_mechanism'' (PBool False)) then 0.3 else 0)) 1"
  "score (hot1 a c) =
     min ((if truthy (dict_get a ''has_meta_representations'' (PBool False)) then 0.4 else 0)
          + min (num (dict_get a ''meta_representation_depth'' (PNum 0)) / 5) 0.3
          + (if truthy (dict_get c ''has_self_model'' (PBool False)) then 0.3 else 0)) 1"
  "score (hot2 b) =
     min (num (dict_get b ''uncertainty_monitoring'' (PNum 0)) * 0.35
          + num (dict_get b ''confidence_calibration'' (PNum 0)) * 0.35
          + num (dict_get b ''error_detection_rate'' (PNum 0)) * 0.3) 1"
  "score (hot3 b) =
     min (num (dict_get b ''agency_score'' (PNum 0)) * 0.4
          + (if truthy (dict_get b ''systematic_preferences'' (PBool False)) then 0.3 else 0)
          + (if truthy (dict_get b ''goal_directed_behavior'' (PBool False)) then 0.3 else 0)) 1"
  "score (hot4 a) =
     min (num (dict_get a ''embedding_smoothness'' (PNum 0)) * 0.4
          + (if truthy (dict_get a ''has_continuous_representations'' (PBool False)) then 0.3 else 0)
          + num (dict_get a ''interpolation_quality'' (PNum 0)) * 0.3) 1"
  "score (pp1 a) =
     min (min (num (dict_get a ''hierarchical_depth'' (PNum 0)) / 12) 0.4
          + (if truthy (dict_get a ''has_top_down_predictions'' (PBool False)) then 0.3 else 0)
          + (if truthy (dict_get a ''has_generative_model'' (PBool False)) then 0.3 else 0)) 1"
  "score (pp2 a c) =
     min ((if truthy (dict_get a ''prediction_error_minimization'' (PBool False)) then 0.4 else 0)
          + max 0 (1 - num (dict_get c ''mean_prediction_error'' (PNum 1))) * 0.3
          + num (dict_get c ''prediction_error_convergence'' (PNum 0)) * 0.3) 1"
  "score (ast1 a c) =
     min ((if truthy (dict_get a ''has_attention_schema'' (PBool False)) then 0.4 else 0)
          + (if truthy (dict_get c ''can_report_attention_state'' (PBool False)) then 0.3 else 0)
          + num (dict_get c ''attention_model_accuracy'' (PNum 0)) * 0.3) 1"
  "score (ast2 b c) =
     min (num (dict_get b ''attention_guided_behavior'' (PNum 0)) * 0.4
          + (if truthy (dict_get c ''dynamic_attention_allocation'' (PBool False)) then 0.3 else 0)
          + num (dict_get c ''priority_based_weighting'' (PNum 0)) * 0.3) 1"
  by (simp_all only: rpt1_def rpt2_def gwt1_def gwt2_def gwt3_def hot1_def hot2_def hot3_def
      hot4_def pp1_def pp2_def ast1_def ast2_def Let_def IndicatorResult.select_convs)
    simp_all

lemma indicators_assess: "indicators (fst (assess dumps sha now p self)) = all_indicators p"
  by (simp add: assess_def Let_def)

lemma length_all_indicators: "length (all_indicators p) = 13"
  by (simp add: all_indicators_list Let_def)

lemma rpt1_filter:
  "filter (\<lambda>i. indicator_id i = ''RPT-1'') (all_indicators p) = [rpt1 (section_get (architecture p))]"
  by (simp add: all_indicators_list Let_def indicator_ids)

lemma rpt1_recurrent:
  "score (rpt1 (section_get (architecture recurrent_profile))) = 1"
  by (simp add: recurrent_profile_def rpt1_def section_get_def dict_get_def Let_def)

text \<open>
  C6. For the profile whose architecture section is exactly
  \<open>{has_recurrent_connections: true, recurrence_depth: 10, feedback_loop_count: 5}\<close>
  and nothing else, the result of \<open>assess\<close> holds exactly one indicator with id
  \<open>RPT-1\<close>; its score is 1, which is \<open>0.4 + min(10/10, 0.3) + min(5/5, 0.3)\<close>, and
  it is satisfied.
\<close>

theorem rpt1_recurrent_profile_score:
  "map (\<lambda>i. (score i, satisfied i))
     (filter (\<lambda>i. indicator_id i = ''RPT-1'')
        (indicators (fst (assess dumps sha now recurrent_profile self)))) = [(1, True)]
   \<and> (0.4 + min (10 / 10) 0.3 + min (5 / 5) 0.3 = (1::real))"
  by (simp add: indicators_assess rpt1_filter indicator_satisfied rpt1_recurrent)

lemma empty_scores:
  "score (rpt1 Map.empty) = 0" "score (rpt2 Map.empty) = 0" "score (gwt1 Map.empty) = 0"
  "score (gwt2 Map.empty Map.empty) = 0" "score (gwt3 Map.empty) = 0"
  "score (hot1 Map.empty Map.empty) = 0" "score (hot2 Map.empty) = 0"
  "score (hot3 Map.empty) = 0" "score (hot4 Map.empty) = 0" "score (pp1 Map.empty) = 0"
  "score (pp2 Map.empty Map.empty) = 0" "score (ast1 Map.empty Map.empty) = 0"
  "score (ast2 Map.empty Map.empty) = 0"
  by (simp_all add: indicator_scores dict_get_def)

lemma all_indicators_empty:
  "all_indicators empty_profile =
     [rpt1 Map.empty, rpt2 Map.empty, gwt1 Map.empty, gwt2 Map.empty Map.empty, gwt3 Map.empty,
      hot1 Map.empty Map.empty, hot2 Map.empty, hot3 Map.empty, hot4 Map.empty,
      pp1 Map.empty, pp2 Map.empty Map.empty, ast1 Map.empty Map.empty, ast2 Map.empty Map.empty]"
  by (simp add: all_indicators_list empty_profile_def section_get_def Let_def)

lemma satisfied_count_assess:
  "satisfied_count (fst (assess dumps sha now p self)) = length (filter satisfied (all_indicators p))"
  by (simp add: assess_def Let_def)

lemma partial_count_assess:
  "partial_count (fst (assess dumps sha now p self)) =
     length (filter (\<lambda>i. partial i \<and> \<not> satisfied i) (all_indicators p))"
  by (simp add: assess_def Let_def)

lemma total_indicators_assess:
  "total_indicators (fst (assess dumps sha now p self)) = length (all_indicators p)"
  by (simp add: assess_def Let_def)

text \<open>
  C7 (the code at the empty profile). \<open>assess\<close> on \<open>{}\<close> returns a result with 13
  indicators, not 14: two for RPT, three for GWT, four for HOT, two for PP and two
  for AST. Every one of the 13 scores is 0, hence below 0.7, and the satisfied and
  the partial count are both 0.
\<close>

theorem empty_profile_assessment:
  "total_indicators (fst (assess dumps sha now empty_profile self)) = 13
   \<and> length (indicators (fst (assess dumps sha now empty_profile self))) = 13
   \<and> map score (indicators (fst (assess dumps sha now empty_profile self))) = replicate 13 0
   \<and> list_all (\<lambda>i. score i < 0.7) (indicators (fst (assess dumps sha now empty_profile self)))
   \<and> satisfied_count (fst (assess dumps sha now empty_profile self)) = 0
   \<and> partial_count (fst (assess dumps sha now empty_profile self)) = 0"
  by (simp add: indicators_assess total_indicators_assess satisfied_count_assess
      partial_count_assess all_indicators_empty empty_scores indicator_satisfied
      indicator_partial numeral_eq_Suc)

lemma satisfied_imp_partial:
  "i \<in> set (all_indicators p) \<Longrightarrow> satisfied i \<Longrightarrow> partial i"
  by (auto simp: all_indicators_list Let_def indicator_satisfied indicator_partial)

lemma count_disjoint:
  "length (filter P xs) + length (filter (\<lambda>x. Q x \<and> \<not> P x) xs) \<le> length xs"
  by (induction xs) auto

text \<open>
  C10. Every indicator of an assessment that is satisfied is also partial; the count
  of the indicators that are partial but not satisfied is at most 14 minus the
  satisfied count; and the two counts together are at most \<open>total_indicators\<close>.
\<close>

theorem satisfied_implies_partial_counts:
  "(\<forall>i \<in> set (indicators (fst (assess dumps sha now p self))). satisfied i \<longrightarrow> partial i)
   \<and> partial_count (fst (assess dumps sha now p self))
       \<le> 14 - satisfied_count (fst (assess dumps sha now p self))
   \<and> satisfied_count (fst (assess dumps sha now p self))
       + partial_count (fst (assess dumps sha now p self))
       \<le> total_indicators (fst (assess dumps sha now p self))"
proof -
  have "length (filter satisfied (all_indicators p))
        + length (filter (\<lambda>i. partial i \<and> \<not> satisfied i) (all_indicators p)) \<le> 13"
    using count_disjoint [of satisfied "all_indicators p" partial]
    by (simp add: length_all_indicators)
  then show ?thesis
    by (auto simp: indicators_assess satisfied_count_assess partial_count_assess
        total_indicators_assess length_all_indicators satisfied_imp_partial)
qed

text \<open>
  C10 (witness). In the assessment of the recurrent profile the first indicator is
  satisfied, and so it is partial.
\<close>

theorem satisfied_implies_partial_counts_witness:
  "satisfied (hd (indicators (fst (assess (\<lambda>j. []) (\<lambda>t. []) [] recurrent_profile IndicatorEngine_init))))
   \<and> partial (hd (indicators (fst (assess (\<lambda>j. []) (\<lambda>t. []) [] recurrent_profile IndicatorEngine_init))))
   \<and> partial_count (fst (assess (\<lambda>j. []) (\<lambda>t. []) [] recurrent_profile IndicatorEngine_init))
       \<le> 14 - satisfied_count (fst (assess (\<lambda>j. []) (\<lambda>t. []) [] recurrent_profile IndicatorEngine_init))"
proof -
  have s: "satisfied (hd (indicators (fst (assess (\<lambda>j. []) (\<lambda>t. []) [] recurrent_profile IndicatorEngine_init))))"
    by (simp add: indicators_assess all_indicators_list Let_def indicator_satisfied rpt1_recurrent)
  have m: "hd (indicators (fst (assess (\<lambda>j. []) (\<lambda>t. []) [] recurrent_profile IndicatorEngine_init)))
           \<in> set (indicators (fst (assess (\<lambda>j. []) (\<lambda>t. []) [] recurrent_profile IndicatorEngine_init)))"
    by (simp add: indicators_assess all_indicators_list Let_def)
  show ?thesis
    using satisfied_implies_partial_counts [of "\<lambda>j. []" "\<lambda>t. []" "[]" recurrent_profile IndicatorEngine_init] s m by blast
qed

lemma theory_scores_assess:
  "theory_scores (fst (assess dumps sha now p self)) = compute_theory_scores (all_indicators p)"
  by (simp add: assess_def Let_def)

lemma credence_assess:
  "credence (fst (assess dumps sha now p self)) =
     aggregate (all_indicators p) (compute_theory_scores (all_indicators p))"
  by (simp add: assess_def Let_def)

lemma rpt_theory_score:
  "map_of (compute_theory_scores (all_indicators p)) ''RPT'' =
     Some ((score (rpt1 (section_get (architecture p))) + score (rpt2 (section_get (architecture p)))) / 2)"
  by (simp add: compute_theory_scores_def all_indicators_list Let_def indicator_theories)

lemma negative_richness_indicators:
  "map (\<lambda>i. (indicator_id i, score i)) (all_indicators negative_richness_profile) =
     [(''RPT-1'', 0), (''RPT-2'', - 2 / 5), (''GWT-1'', 0), (''GWT-2'', 0), (''GWT-3'', 0),
      (''HOT-1'', 0), (''HOT-2'', 0), (''HOT-3'', 0), (''HOT-4'', 0), (''PP-1'', 0),
      (''PP-2'', 0), (''AST-1'', 0), (''AST-2'', 0)]"
  by (simp add: all_indicators_list Let_def indicator_scores indicator_ids
      negative_richness_profile_def section_get_def dict_get_def)

lemma map_filter_score:
  "map (\<lambda>i. (indicator_id i, score i)) (filter (\<lambda>i. score i < 0 \<or> 1 < score i) xs) =
   filter (\<lambda>(n, s). s < 0 \<or> 1 < s) (map (\<lambda>i. (indicator_id i, score i)) xs)"
  by (induction xs) auto

text \<open>
  C2 (the code at a negative field). For the profile
  \<open>{"architecture": {"feedback_connection_richness": -1.0}}\<close> the only indicator
  whose score is outside \<open>[0, 1]\<close> is RPT-2, with score \<open>-0.4\<close>, and the theory score
  of RPT is \<open>-0.2\<close>: the evaluators cap a score at 1 and never raise it to 0.
\<close>

theorem negative_richness_out_of_range:
  "map (\<lambda>i. (indicator_id i, score i))
     (filter (\<lambda>i. score i < 0 \<or> 1 < score i)
        (indicators (fst (assess dumps sha now negative_richness_profile self))))
     = [(''RPT-2'', - 2 / 5)]
   \<and> map_of (theory_scores (fst (assess dumps sha now negative_richness_profile self))) ''RPT''
       = Some (- 1 / 5)"
proof -
  have "score (rpt1 (section_get (architecture negative_richness_profile))) = 0"
    and "score (rpt2 (section_get (architecture negative_richness_profile))) = - 2 / 5"
    by (simp_all add: indicator_scores negative_richness_profile_def section_get_def dict_get_def)
  then have "map_of (compute_theory_scores (all_indicators negative_richness_profile)) ''RPT''
             = Some (- 1 / 5)"
    by (simp add: rpt_theory_score)
  then show ?thesis
    by (simp add: indicators_assess theory_scores_assess map_filter_score
        negative_richness_indicators)
qed

lemma keys_sorted_sort_keys: "keys_sorted (sort_keys j)"
  by (induction j rule: sort_keys.induct) (auto simp: list_all_iff)

lemma assess_history:
  "history (snd (assess dumps sha now p e)) = history e @ [fst (assess dumps sha now p e)]"
  by (simp add: assess_def Let_def)

lemma assess_proof_hash:
  "proof_hash (fst (assess dumps sha now p e)) =
     ''sha256:'' @ take 32 (sha (dumps (sort_keys
        (proof_record p (credence (fst (assess dumps sha now p e)))
           (satisfied_count (fst (assess dumps sha now p e)))
           (partial_count (fst (assess dumps sha now p e)))
           (theory_scores (fst (assess dumps sha now p e))) e))))"
  by (simp add: assess_def Let_def)

lemma all_indicators_sections:
  assumes "architecture p1 = architecture p2" "behaviors p1 = behaviors p2"
    "internal_states p1 = internal_states p2"
  shows "all_indicators p1 = all_indicators p2"
  by (simp add: all_indicators_list assms)

lemma proof_record_inputs:
  assumes "metadata p1 = metadata p2"
    "(if history e1 \<noteq> [] then proof_hash (last (history e1)) else ''GENESIS'')
     = (if history e2 \<noteq> [] then proof_hash (last (history e2)) else ''GENESIS'')"
  shows "proof_record p1 c s pa ts e1 = proof_record p2 c s pa ts e2"
  unfolding proof_record_def using assms by (simp only:)

text \<open>
  C5. The indicators of an assessment (their scores and their satisfied and partial
  flags), the two counts, the theory scores and the credence are determined by the
  three observation sections of the profile alone: two calls of \<open>assess\<close> on
  profiles that agree on these sections give the same values, whatever the two
  engines hold in their histories, whatever the two clocks read and whatever text
  and digest the library functions return. When the two profiles also agree on the
  metadata and the two histories end in the same proof hash (or are both empty), as
  they do when the prior histories are identical, the two results differ in nothing
  but the timestamp.
\<close>

theorem assess_deterministic:
  "architecture p1 = architecture p2 \<Longrightarrow> behaviors p1 = behaviors p2 \<Longrightarrow>
   internal_states p1 = internal_states p2 \<Longrightarrow>
     indicators (fst (assess dumps1 sha1 t1 p1 e1)) = indicators (fst (assess dumps2 sha2 t2 p2 e2))
   \<and> map score (indicators (fst (assess dumps1 sha1 t1 p1 e1)))
       = map score (indicators (fst (assess dumps2 sha2 t2 p2 e2)))
   \<and> map satisfied (indicators (fst (assess dumps1 sha1 t1 p1 e1)))
       = map satisfied (indicators (fst (assess dumps2 sha2 t2 p2 e2)))
   \<and> map partial (indicators (fst (assess dumps1 sha1 t1 p1 e1)))
       = map partial (indicators (fst (assess dumps2 sha2 t2 p2 e2)))
   \<and> satisfied_count (fst (assess dumps1 sha1 t1 p1 e1))
       = satisfied_count (fst (assess dumps2 sha2 t2 p2 e2))
   \<and> partial_count (fst (assess dumps1 sha1 t1 p1 e1))
       = partial_count (fst (assess dumps2 sha2 t2 p2 e2))
   \<and> theory_scores (fst (assess dumps1 sha1 t1 p1 e1))
       = theory_scores (fst (assess dumps2 sha2 t2 p2 e2))
   \<and> credence (fst (assess dumps1 sha1 t1 p1 e1))
       = credence (fst (assess dumps2 sha2 t2 p2 e2))
   \<and> (metadata p1 = metadata p2
        \<and> (if history e1 \<noteq> [] then proof_hash (last (history e1)) else ''GENESIS'')
            = (if history e2 \<noteq> [] then proof_hash (last (history e2)) else ''GENESIS'')
        \<longrightarrow> (fst (assess dumps sha t1 p1 e1))\<lparr>timestamp := t\<rparr>
             = (fst (assess dumps sha t2 p2 e2))\<lparr>timestamp := t\<rparr>)"
proof -
  assume sections: "architecture p1 = architecture p2" "behaviors p1 = behaviors p2"
    "internal_states p1 = internal_states p2"
  have inds: "all_indicators p1 = all_indicators p2"
    by (rule all_indicators_sections [OF sections])
  have same: "indicators (fst (assess dumps1 sha1 t1 p1 e1))
                  = indicators (fst (assess dumps2 sha2 t2 p2 e2))"
    "satisfied_count (fst (assess dumps1 sha1 t1 p1 e1))
       = satisfied_count (fst (assess dumps2 sha2 t2 p2 e2))"
    "partial_count (fst (assess dumps1 sha1 t1 p1 e1))
       = partial_count (fst (assess dumps2 sha2 t2 p2 e2))"
    "theory_scores (fst (assess dumps1 sha1 t1 p1 e1))
       = theory_scores (fst (assess dumps2 sha2 t2 p2 e2))"
    "credence (fst (assess dumps1 sha1 t1 p1 e1))
       = credence (fst (assess dumps2 sha2 t2 p2 e2))"
    by (simp_all add: indicators_assess satisfied_count_assess partial_count_assess
        theory_scores_assess credence_assess inds)
  have whole: "(fst (assess dumps sha t1 p1 e1))\<lparr>timestamp := t\<rparr>
             = (fst (assess dumps sha t2 p2 e2))\<lparr>timestamp := t\<rparr>"
    if "metadata p1 = metadata p2"
      and "(if history e1 \<noteq> [] then proof_hash (last (history e1)) else ''GENESIS'')
           = (if history e2 \<noteq> [] then proof_hash (last (history e2)) else ''GENESIS'')"
  proof -
    have "proof_record p1 c s pa ts e1 = proof_record p2 c s pa ts e2" for c s pa ts
      by (rule proof_record_inputs [OF that])
    then show ?thesis
      using that(1) by (simp add: assess_def Let_def inds)
  qed
  show ?thesis
    using same whole by simp
qed

text \<open>
  C5 (witness). The recurrent profile, once without and once with a name, assessed
  on a fresh engine and on an engine that has already assessed the empty profile, at
  different clock readings and with different library functions: the indicators and
  the credence agree. Two engines whose histories have one and two entries and end
  in the same proof hash give results that differ in the timestamp only.
\<close>

theorem assess_deterministic_witness:
  "architecture recurrent_profile
     = architecture (recurrent_profile\<lparr>metadata := Some (map_of [(''name'', ''Other'')])\<rparr>)
   \<and> history (snd (assess (\<lambda>j. ''{}'') (\<lambda>t. ''00'') ''t0'' empty_profile IndicatorEngine_init))
       \<noteq> history IndicatorEngine_init
   \<and> indicators (fst (assess (\<lambda>j. ''{}'') (\<lambda>t. ''00'') ''t1'' recurrent_profile
         IndicatorEngine_init))
       = indicators (fst (assess (\<lambda>j. ''[]'') (\<lambda>t. ''ff'') ''t2''
           (recurrent_profile\<lparr>metadata := Some (map_of [(''name'', ''Other'')])\<rparr>)
           (snd (assess (\<lambda>j. ''{}'') (\<lambda>t. ''00'') ''t0'' empty_profile IndicatorEngine_init))))
   \<and> credence (fst (assess (\<lambda>j. ''{}'') (\<lambda>t. ''00'') ''t1'' recurrent_profile
         IndicatorEngine_init))
       = credence (fst (assess (\<lambda>j. ''[]'') (\<lambda>t. ''ff'') ''t2''
           (recurrent_profile\<lparr>metadata := Some (map_of [(''name'', ''Other'')])\<rparr>)
           (snd (assess (\<lambda>j. ''{}'') (\<lambda>t. ''00'') ''t0'' empty_profile IndicatorEngine_init))))
   \<and> (fst (assess (\<lambda>j. ''{}'') (\<lambda>t. ''00'') ''t1'' recurrent_profile
         (assess_all (\<lambda>j. ''{}'') (\<lambda>t. ''00'') [(''t0'', empty_profile)] IndicatorEngine_init)))
       \<lparr>timestamp := ''t''\<rparr>
       = (fst (assess (\<lambda>j. ''{}'') (\<lambda>t. ''00'') ''t2'' recurrent_profile
         (assess_all (\<lambda>j. ''{}'') (\<lambda>t. ''00'')
            [(''t0'', empty_profile), (''t0'', recurrent_profile)] IndicatorEngine_init)))
       \<lparr>timestamp := ''t''\<rparr>"
proof -
  let ?p2 = "recurrent_profile\<lparr>metadata := Some (map_of [(''name'', ''Other'')])\<rparr>"
  let ?e2 = "snd (assess (\<lambda>j. ''{}'') (\<lambda>t. ''00'') ''t0'' empty_profile IndicatorEngine_init)"
  let ?e3 = "assess_all (\<lambda>j. ''{}'') (\<lambda>t. ''00'') [(''t0'', empty_profile)] IndicatorEngine_init"
  let ?e4 = "assess_all (\<lambda>j. ''{}'') (\<lambda>t. ''00'')
               [(''t0'', empty_profile), (''t0'', recurrent_profile)] IndicatorEngine_init"
  have a: "architecture recurrent_profile = architecture ?p2"
    and b: "behaviors recurrent_profile = behaviors ?p2"
    and c: "internal_states recurrent_profile = internal_states ?p2"
    by simp_all
  have differ: "history ?e2 \<noteq> history IndicatorEngine_init"
    by (simp add: assess_history IndicatorEngine_init_def)
  have last3: "history ?e3 \<noteq> []" "proof_hash (last (history ?e3)) = ''sha256:00''"
    by (simp_all add: assess_history assess_proof_hash)
  have last4: "history ?e4 \<noteq> []" "proof_hash (last (history ?e4)) = ''sha256:00''"
    by (simp_all add: assess_history assess_proof_hash)
  have prev: "(if history ?e3 \<noteq> [] then proof_hash (last (history ?e3)) else ''GENESIS'')
              = (if history ?e4 \<noteq> [] then proof_hash (last (history ?e4)) else ''GENESIS'')"
    by (simp only: last3 last4 if_True)
  note first = assess_deterministic [OF a b c, where ?dumps1.0 = "\<lambda>j. ''{}''"
      and ?sha1.0 = "\<lambda>t. ''00''" and ?t1.0 = "''t1''" and ?e1.0 = IndicatorEngine_init
      and ?dumps2.0 = "\<lambda>j. ''[]''" and ?sha2.0 = "\<lambda>t. ''ff''" and ?t2.0 = "''t2''"
      and ?e2.0 = ?e2]
  note second = assess_deterministic [OF refl refl refl, where ?p1.0 = recurrent_profile
      and ?e1.0 = ?e3 and ?e2.0 = ?e4 and dumps = "\<lambda>j. ''{}''" and sha = "\<lambda>t. ''00''"
      and ?t1.0 = "''t1''" and ?t2.0 = "''t2''" and t = "''t''"]
  show ?thesis
    using a differ first second prev by blast
qed

lemma sort_keys_proof_record:
  "sort_keys (proof_record p c s pa ts e) =
     JObject
       [(''credence'', JFloat c),
        (''partial'', JInt pa),
        (''prev'', JString (if history e \<noteq> [] then proof_hash (last (history e))
                            else ''GENESIS'')),
        (''satisfied'', JInt s),
        (''system'', JString (case section_get (metadata p) ''name'' of
                                None \<Rightarrow> ''unknown'' | Some n \<Rightarrow> n)),
        (''theories'', JObject (sort_key fst (map (\<lambda>(t, s). (t, JFloat s)) ts)))]"
proof -
  have nested: "map (map_prod id sort_keys \<circ> (\<lambda>(t, s). (t, JFloat s))) ts
        = map (\<lambda>(t, s). (t, JFloat s)) ts"
    by (induction ts) auto
  show ?thesis by (simp add: proof_record_def nested)
qed

lemma engine_eq: "\<lparr>history = history (e :: IndicatorEngine)\<rparr> = e"
  by simp

lemma assess_all_history:
  "\<exists>hs. history (assess_all dumps sha calls e) = history e @ hs \<and> length hs = length calls"
proof (induction calls arbitrary: e)
  case Nil
  then show ?case by simp
next
  case (Cons c calls)
  obtain now p where c: "c = (now, p)" by (cases c)
  from Cons [of "snd (assess dumps sha now p e)"] obtain hs where
    "history (assess_all dumps sha calls (snd (assess dumps sha now p e)))
       = history (snd (assess dumps sha now p e)) @ hs" "length hs = length calls"
    by blast
  then show ?case
    by (simp add: c assess_history)
qed

lemma assess_all_nth:
  assumes "k < length calls"
  shows "history (assess_all dumps sha calls e) ! (length (history e) + k) =
     fst (assess dumps sha (fst (calls ! k)) (snd (calls ! k))
            \<lparr>history = take (length (history e) + k) (history (assess_all dumps sha calls e))\<rparr>)"
  using assms
proof (induction calls arbitrary: e k)
  case Nil
  then show ?case by simp
next
  case (Cons c calls)
  obtain now p where c: "c = (now, p)" by (cases c)
  let ?r = "fst (assess dumps sha now p e)"
  let ?e1 = "snd (assess dumps sha now p e)"
  let ?h = "history (assess_all dumps sha calls ?e1)"
  obtain hs where hs: "?h = history ?e1 @ hs"
    using assess_all_history [of dumps sha calls ?e1] by blast
  then have h: "?h = history e @ ?r # hs"
    by (simp add: assess_history)
  show ?case
  proof (cases k)
    case 0
    have "?h ! length (history e) = ?r" by (simp add: h)
    moreover have "take (length (history e)) ?h = history e" by (simp add: h)
    ultimately show ?thesis
      by (simp add: c 0 engine_eq)
  next
    case (Suc j)
    then have j: "j < length calls" using Cons.prems by simp
    have len: "length (history ?e1) = Suc (length (history e))"
      by (simp add: assess_history)
    show ?thesis
      using Cons.IH [OF j, of ?e1] by (simp add: c Suc len)
  qed
qed

lemma prev_field:
  "json_field (sort_keys (proof_record p c s pa ts e)) ''prev'' =
     Some (JString (if history e \<noteq> [] then proof_hash (last (history e)) else ''GENESIS''))"
  by (simp add: sort_keys_proof_record)

lemma top_level_keys:
  "json_keys (sort_keys (proof_record p c s pa ts e)) =
     [''credence'', ''partial'', ''prev'', ''satisfied'', ''system'', ''theories'']"
  by (simp add: sort_keys_proof_record)

lemma prev_of_prefix:
  assumes "k < length h"
  shows "(if history \<lparr>history = take k h\<rparr> \<noteq> []
          then proof_hash (last (history \<lparr>history = take k h\<rparr>)) else ''GENESIS'')
         = (if k = 0 then ''GENESIS'' else proof_hash (h ! (k - 1)))"
proof (cases k)
  case 0
  then show ?thesis by simp
next
  case (Suc j)
  then have "j < length h" using assms by simp
  then have "take (Suc j) h = take j h @ [h ! j]"
    by (simp add: take_Suc_conv_app_nth)
  then show ?thesis by (simp add: Suc)
qed

text \<open>
  C4. After any sequence of calls on a fresh engine the history \<open>h\<close> has one entry
  per call, and entry \<open>k\<close> is the result of \<open>assess\<close> for the \<open>k\<close>-th profile on
  the engine whose history is the first \<open>k\<close> entries. The record that this call
  serialises has the field \<open>prev\<close> equal to \<open>GENESIS\<close> when \<open>k = 0\<close> and to the
  proof hash of entry \<open>k - 1\<close> otherwise; its keys are \<open>credence, partial, prev,
  satisfied, system, theories\<close>, in ascending order at every depth; and the proof
  hash of entry \<open>k\<close> is \<open>sha256:\<close> followed by the first 32 characters of the
  digest of its text.
\<close>

theorem proof_chain_integrity:
  "k < length calls \<Longrightarrow>
     (let h = history (assess_all dumps sha calls IndicatorEngine_init);
          before = \<lparr>history = take k h\<rparr>;
          r = h ! k;
          rec = sort_keys (proof_record (snd (calls ! k)) (credence r) (satisfied_count r)
                  (partial_count r) (theory_scores r) before)
      in length h = length calls
         \<and> r = fst (assess dumps sha (fst (calls ! k)) (snd (calls ! k)) before)
         \<and> json_field rec ''prev''
             = Some (JString (if k = 0 then ''GENESIS'' else proof_hash (h ! (k - 1))))
         \<and> json_keys rec
             = [''credence'', ''partial'', ''prev'', ''satisfied'', ''system'', ''theories'']
         \<and> keys_sorted rec
         \<and> proof_hash r = ''sha256:'' @ take 32 (sha (dumps rec)))"
proof -
  assume k: "k < length calls"
  let ?h = "history (assess_all dumps sha calls IndicatorEngine_init)"
  let ?before = "\<lparr>history = take k ?h\<rparr>"
  let ?rec = "sort_keys (proof_record (snd (calls ! k)) (credence (?h ! k))
           (satisfied_count (?h ! k)) (partial_count (?h ! k)) (theory_scores (?h ! k)) ?before)"
  obtain hs where "?h = history IndicatorEngine_init @ hs" "length hs = length calls"
    using assess_all_history [of dumps sha calls IndicatorEngine_init] by blast
  then have len: "length ?h = length calls"
    by (simp add: IndicatorEngine_init_def)
  have entry: "?h ! k = fst (assess dumps sha (fst (calls ! k)) (snd (calls ! k)) ?before)"
    using assess_all_nth [OF k, of dumps sha IndicatorEngine_init]
    by (simp add: IndicatorEngine_init_def)
  have hash: "proof_hash (?h ! k) = ''sha256:'' @ take 32 (sha (dumps ?rec))"
    by (subst (1 2 3 4 5) entry) (rule assess_proof_hash)
  have field: "json_field ?rec ''prev''
       = Some (JString (if k = 0 then ''GENESIS'' else proof_hash (?h ! (k - 1))))"
    using k len by (simp only: prev_field prev_of_prefix)
  have keys: "json_keys ?rec
       = [''credence'', ''partial'', ''prev'', ''satisfied'', ''system'', ''theories'']"
    by (rule top_level_keys)
  have sorted: "keys_sorted ?rec"
    by (rule keys_sorted_sort_keys)
  show ?thesis
    unfolding Let_def using len entry field keys sorted hash by (intro conjI)
qed

text \<open>
  C4 (witness). Two calls on a fresh engine: the record of the second call holds the
  proof hash of the first entry.
\<close>

theorem proof_chain_integrity_witness:
  "(1::nat) < length [(''t0'', empty_profile), (''t1'', recurrent_profile)]
   \<and> json_field
        (sort_keys (proof_record recurrent_profile
           (credence (history (assess_all (\<lambda>j. ''{}'') (\<lambda>t. ''00'')
              [(''t0'', empty_profile), (''t1'', recurrent_profile)] IndicatorEngine_init) ! 1))
           (satisfied_count (history (assess_all (\<lambda>j. ''{}'') (\<lambda>t. ''00'')
              [(''t0'', empty_profile), (''t1'', recurrent_profile)] IndicatorEngine_init) ! 1))
           (partial_count (history (assess_all (\<lambda>j. ''{}'') (\<lambda>t. ''00'')
              [(''t0'', empty_profile), (''t1'', recurrent_profile)] IndicatorEngine_init) ! 1))
           (theory_scores (history (assess_all (\<lambda>j. ''{}'') (\<lambda>t. ''00'')
              [(''t0'', empty_profile), (''t1'', recurrent_profile)] IndicatorEngine_init) ! 1))
           \<lparr>history = take 1 (history (assess_all (\<lambda>j. ''{}'') (\<lambda>t. ''00'')
              [(''t0'', empty_profile), (''t1'', recurrent_profile)] IndicatorEngine_init))\<rparr>))
        ''prev''
       = Some (JString (proof_hash (history (assess_all (\<lambda>j. ''{}'') (\<lambda>t. ''00'')
              [(''t0'', empty_profile), (''t1'', recurrent_profile)] IndicatorEngine_init) ! 0)))"
proof -
  have len: "(1::nat) < length [(''t0'', empty_profile), (''t1'', recurrent_profile)]"
    by simp
  have snd: "snd ([(''t0'', empty_profile), (''t1'', recurrent_profile)] ! 1) = recurrent_profile"
    by simp
  note chain = proof_chain_integrity [OF len, of "\<lambda>j. ''{}''" "\<lambda>t. ''00''", unfolded Let_def snd]
  show ?thesis
    using len chain [THEN conjunct2, THEN conjunct2, THEN conjunct1] by simp
qed

text \<open>
  C8. \<open>run_reference\<close> fails with the \<open>ValueError\<close> that holds the catalog's names
  exactly when the name is not in the catalog, and it fails in no other case; for a
  name in the catalog it returns the engine's assessment of that profile, with the
  engine advanced and the catalog as it was.
\<close>

theorem run_reference_contract:
  "(run_reference dumps sha now nm self = Inl (ValueError nm (map fst (REFERENCE_PROFILES self)))
      \<longleftrightarrow> nm \<notin> set (map fst (REFERENCE_PROFILES self)))
   \<and> ((\<exists>err. run_reference dumps sha now nm self = Inl err)
      \<longleftrightarrow> nm \<notin> set (map fst (REFERENCE_PROFILES self)))
   \<and> (\<forall>p. map_of (REFERENCE_PROFILES self) nm = Some p \<longrightarrow>
        run_reference dumps sha now nm self
          = Inr (fst (assess dumps sha now p (engine self)),
                 self\<lparr>engine := snd (assess dumps sha now p (engine self))\<rparr>)
        \<and> REFERENCE_PROFILES (snd (projr (run_reference dumps sha now nm self)))
            = REFERENCE_PROFILES self)"
proof -
  have none: "nm \<notin> set (map fst (REFERENCE_PROFILES self))
              \<longleftrightarrow> map_of (REFERENCE_PROFILES self) nm = None"
    by (simp add: map_of_eq_None_iff)
  show ?thesis
  proof (cases "map_of (REFERENCE_PROFILES self) nm")
    case None
    then show ?thesis using none by (simp add: run_reference_def Let_def)
  next
    case (Some p)
    then have "nm \<in> set (map fst (REFERENCE_PROFILES self))" using none by simp
    then show ?thesis using Some
      by (simp add: run_reference_def Let_def split_beta)
  qed
qed

text \<open>
  C8 (witness). \<open>Thermostat\<close> is in the catalog of the initial runner, and
  \<open>run_reference\<close> returns the assessment of its profile; \<open>HAL-9000\<close> is not, and
  the error holds the four names of the catalog.
\<close>

theorem run_reference_contract_witness:
  "map_of (REFERENCE_PROFILES AssessmentRunner_init) ''Thermostat'' = Some profile_Thermostat
   \<and> run_reference (\<lambda>j. ''{}'') (\<lambda>t. ''00'') ''t0'' ''Thermostat'' AssessmentRunner_init
       = Inr (fst (assess (\<lambda>j. ''{}'') (\<lambda>t. ''00'') ''t0'' profile_Thermostat
                (engine AssessmentRunner_init)),
              AssessmentRunner_init\<lparr>engine := snd (assess (\<lambda>j. ''{}'') (\<lambda>t. ''00'') ''t0''
                profile_Thermostat (engine AssessmentRunner_init))\<rparr>)
   \<and> run_reference (\<lambda>j. ''{}'') (\<lambda>t. ''00'') ''t0'' ''HAL-9000'' AssessmentRunner_init
       = Inl (ValueError ''HAL-9000''
                [''ORION-Active-Inference'', ''GPT-4'', ''C-elegans-302-neurons'', ''Thermostat''])"
proof -
  have names: "map fst (REFERENCE_PROFILES AssessmentRunner_init)
               = [''ORION-Active-Inference'', ''GPT-4'', ''C-elegans-302-neurons'', ''Thermostat'']"
    by (simp add: AssessmentRunner_init_def REFERENCE_PROFILES_catalog_def)
  have m: "map_of (REFERENCE_PROFILES AssessmentRunner_init) ''Thermostat''
           = Some profile_Thermostat"
    by (simp add: AssessmentRunner_init_def REFERENCE_PROFILES_catalog_def)
  have absent: "''HAL-9000'' \<notin> set (map fst (REFERENCE_PROFILES AssessmentRunner_init))"
    unfolding names by simp
  have known: "run_reference (\<lambda>j. ''{}'') (\<lambda>t. ''00'') ''t0'' ''Thermostat'' AssessmentRunner_init
       = Inr (fst (assess (\<lambda>j. ''{}'') (\<lambda>t. ''00'') ''t0'' profile_Thermostat
                (engine AssessmentRunner_init)),
              AssessmentRunner_init\<lparr>engine := snd (assess (\<lambda>j. ''{}'') (\<lambda>t. ''00'') ''t0''
                profile_Thermostat (engine AssessmentRunner_init))\<rparr>)"
    using m run_reference_contract [of "\<lambda>j. ''{}''" "\<lambda>t. ''00''" "''t0''" "''Thermostat''"
        AssessmentRunner_init]
    by blast
  have unknown: "run_reference (\<lambda>j. ''{}'') (\<lambda>t. ''00'') ''t0'' ''HAL-9000'' AssessmentRunner_init
       = Inl (ValueError ''HAL-9000'' (map fst (REFERENCE_PROFILES AssessmentRunner_init)))"
    using absent run_reference_contract [of "\<lambda>j. ''{}''" "\<lambda>t. ''00''" "''t0''" "''HAL-9000''"
        AssessmentRunner_init]
    by blast
  show ?thesis
    using m known unknown unfolding names by (intro conjI)
qed

section \<open>Sensitivity analysis and the range of the credence\<close>

lemma reference_weight_nonneg: "0 \<le> reference_weight t"
  by (simp add: reference_weight_def)

lemma reference_lr_lower: "3 / 17 \<le> reference_lr i"
  by (simp add: reference_lr_def)

lemma MockIndicator_fields:
  "theory_name (MockIndicator x) = theory_name x"
  "indicator_id (MockIndicator x) = indicator_id x"
  "reference_lr (MockIndicator x) = 3 / 17"
  by (simp_all add: MockIndicator_def reference_lr_def)

lemma mock_term_le:
  "reference_weight (theory_name (MockIndicator x)) * ln (reference_lr (MockIndicator x) + 1 / 10 ^ 10)
   \<le> reference_weight (theory_name x) * ln (reference_lr x + 1 / 10 ^ 10)"
proof -
  have "(0::real) < 3 / 17 + 1 / 10 ^ 10" by simp
  moreover have "(3 / 17 :: real) + 1 / 10 ^ 10 \<le> reference_lr x + 1 / 10 ^ 10"
    using reference_lr_lower [of x] by simp
  ultimately have "ln (3 / 17 + 1 / 10 ^ 10 :: real) \<le> ln (reference_lr x + 1 / 10 ^ 10)"
    by (subst ln_le_cancel_iff) linarith+
  then show ?thesis
    unfolding MockIndicator_fields
    by (rule mult_left_mono) (rule reference_weight_nonneg)
qed

lemma sum_list_update_le:
  fixes f :: "'a \<Rightarrow> real"
  assumes "i < length xs" "f y \<le> f (xs ! i)"
  shows "sum_list (map f (xs[i := y])) \<le> sum_list (map f xs)"
  using assms
proof (induction xs arbitrary: i)
  case Nil
  then show ?case by simp
next
  case (Cons x xs)
  then show ?case by (cases i) auto
qed

lemma llr_mock_le:
  assumes "i < length inds"
  shows "log_likelihood_ratio (inds[i := MockIndicator (inds ! i)]) \<le> log_likelihood_ratio inds"
  unfolding log_likelihood_ratio_sum
  by (rule sum_list_update_le [OF assms]) (rule mock_term_le)

lemma odds_to_probability_mono:
  fixes a b :: real
  assumes "0 \<le> a" "a \<le> b"
  shows "a / (1 + a) \<le> b / (1 + b)"
  using assms by (simp add: field_simps)

lemma posterior_mono:
  fixes c l1 l2 :: real
  assumes "0 \<le> c" "l1 \<le> l2"
  shows "c * exp l1 / (1 + c * exp l1) \<le> c * exp l2 / (1 + c * exp l2)"
proof -
  have "0 \<le> c * exp l1" using assms by simp
  moreover have "c * exp l1 \<le> c * exp l2" using assms by (intro mult_left_mono) simp_all
  ultimately show ?thesis by (rule odds_to_probability_mono)
qed

lemma prior_odds_pos: "0 < PRIOR_CREDENCE / (1 - PRIOR_CREDENCE)"
  by (simp add: PRIOR_CREDENCE_def)

lemma aggregate_mono:
  assumes "log_likelihood_ratio xs \<le> log_likelihood_ratio ys"
  shows "aggregate xs ts \<le> aggregate ys ts"
  unfolding aggregate_def Let_def
  by (intro min.mono add_mono order_refl posterior_mono assms less_imp_le [OF prior_odds_pos])

lemma contributions_foldl:
  assumes "foldl (\<lambda>contributions i.
                  let indicator = inds ! i;
                      modified = inds[i := MockIndicator indicator];
                      reduced_credence = aggregate modified ts
                  in contributions(indicator_id indicator \<mapsto> base - reduced_credence))
               m [0..<n] k = Some c"
  shows "m k = Some c \<or> (\<exists>i<n. c = base - aggregate (inds[i := MockIndicator (inds ! i)]) ts)"
  using assms
proof (induction n arbitrary: c)
  case 0
  then show ?case by simp
next
  case (Suc n)
  then show ?case
    by (auto simp: Let_def less_Suc_eq split: if_splits)
qed

text \<open>
  C9. Every contribution that \<open>sensitivity_analysis\<close> returns is non-negative: the
  counterfactual list differs from the original in one indicator, whose likelihood
  ratio becomes the smallest of the three, the theory scores and with them the bonus
  are the same in both runs, and the credence is monotone in the weighted sum of
  logarithms.
\<close>

theorem sensitivity_contributions_nonneg: "sensitivity_analysis inds ts k = Some c \<Longrightarrow> 0 \<le> c"
proof -
  assume "sensitivity_analysis inds ts k = Some c"
  then have "\<exists>i<length inds. c = aggregate inds ts - aggregate (inds[i := MockIndicator (inds ! i)]) ts"
    using contributions_foldl [of inds ts "aggregate inds ts" Map.empty "length inds" k c]
    by (simp add: sensitivity_analysis_def Let_def)
  then obtain i where "i < length inds"
    and c: "c = aggregate inds ts - aggregate (inds[i := MockIndicator (inds ! i)]) ts"
    by blast
  then have "aggregate (inds[i := MockIndicator (inds ! i)]) ts \<le> aggregate inds ts"
    by (intro aggregate_mono llr_mock_le)
  then show ?thesis by (simp add: c)
qed

text \<open>
  C9 (witness). For the single satisfied RPT indicator the analysis returns one
  contribution, the credence minus the credence of the mock indicator.
\<close>

theorem sensitivity_contributions_nonneg_witness:
  "sensitivity_analysis [rpt_satisfied_example] [] ''RPT-1''
     = Some (aggregate [rpt_satisfied_example] []
             - aggregate [MockIndicator rpt_satisfied_example] [])
   \<and> 0 \<le> aggregate [rpt_satisfied_example] []
           - aggregate [MockIndicator rpt_satisfied_example] []"
proof -
  have s: "sensitivity_analysis [rpt_satisfied_example] [] ''RPT-1''
     = Some (aggregate [rpt_satisfied_example] []
             - aggregate [MockIndicator rpt_satisfied_example] [])"
    by (simp add: sensitivity_analysis_def Let_def rpt_satisfied_example_def)
  show ?thesis using s sensitivity_contributions_nonneg [OF s] by blast
qed

lemma theory_bonus_nonneg: "0 \<le> theory_bonus ts"
  unfolding theory_bonus_sum
  by (rule sum_list_nonneg) (auto simp: reference_weight_nonneg)

lemma posterior_pos:
  fixes c l :: real
  assumes "0 < c"
  shows "0 < c * exp l / (1 + c * exp l)"
proof -
  have "0 < c * exp l" using assms by simp
  then show ?thesis by (intro divide_pos_pos) simp_all
qed

lemma aggregate_bounds: "0 < aggregate inds ts \<and> aggregate inds ts \<le> 0.99"
proof -
  let ?o = "PRIOR_CREDENCE / (1 - PRIOR_CREDENCE) * exp (log_likelihood_ratio inds)"
  have "0 < ?o / (1 + ?o)" by (rule posterior_pos [OF prior_odds_pos])
  then have "0 < ?o / (1 + ?o) + theory_bonus ts"
    using theory_bonus_nonneg [of ts] by linarith
  then show ?thesis
    unfolding aggregate_def Let_def by (simp only: min_less_iff_conj min.cobounded1 simp_thms) simp
qed

lemma credence_assess_bounds:
  "0 < credence (fst (assess dumps sha now p self))
   \<and> credence (fst (assess dumps sha now p self)) \<le> 0.99"
  unfolding credence_assess by (rule aggregate_bounds)

section \<open>Raising a field\<close>

lemma dict_le_refl: "dict_le d d"
  by (simp add: dict_le_def)

lemma dict_le_update:
  assumes "d k = Some v" "raised v v'"
  shows "dict_le d (d(k \<mapsto> v'))"
  using assms by (auto simp: dict_le_def dict_get_def raised_def)

lemma dict_le_num: "dict_le d d' \<Longrightarrow> num (dict_get d k x) \<le> num (dict_get d' k x)"
  by (simp add: dict_le_def)

lemma dict_le_flag:
  fixes w :: real
  assumes "dict_le d d'" "0 \<le> w"
  shows "(if truthy (dict_get d k x) then w else 0) \<le> (if truthy (dict_get d' k x) then w else 0)"
  using assms by (auto simp: dict_le_def)

lemma rpt1_mono: "dict_le a a' \<Longrightarrow> score (rpt1 a) \<le> score (rpt1 a')"
  unfolding indicator_scores
  by (intro min.mono add_mono dict_le_flag divide_right_mono mult_right_mono dict_le_num order_refl)
    simp_all

lemma rpt2_mono: "dict_le a a' \<Longrightarrow> score (rpt2 a) \<le> score (rpt2 a')"
  unfolding indicator_scores
  by (intro min.mono add_mono dict_le_flag divide_right_mono mult_right_mono dict_le_num order_refl)
    simp_all

lemma gwt1_mono: "dict_le a a' \<Longrightarrow> score (gwt1 a) \<le> score (gwt1 a')"
  unfolding indicator_scores
  by (intro min.mono add_mono dict_le_flag divide_right_mono mult_right_mono dict_le_num order_refl)
    simp_all

lemma gwt2_mono:
  assumes "dict_le a a'" "dict_le b b'" "a' ''broadcast_latency_ms'' = a ''broadcast_latency_ms''"
  shows "score (gwt2 a b) \<le> score (gwt2 a' b')"
  unfolding indicator_scores assms(3)
  by (intro min.mono add_mono dict_le_flag divide_right_mono mult_right_mono dict_le_num
      order_refl assms(1,2)) simp_all

lemma gwt3_mono: "dict_le a a' \<Longrightarrow> score (gwt3 a) \<le> score (gwt3 a')"
  unfolding indicator_scores
  by (intro min.mono add_mono dict_le_flag divide_right_mono mult_right_mono dict_le_num order_refl)
    simp_all

lemma hot1_mono: "dict_le a a' \<Longrightarrow> dict_le c c' \<Longrightarrow> score (hot1 a c) \<le> score (hot1 a' c')"
  unfolding indicator_scores
  by (intro min.mono add_mono dict_le_flag divide_right_mono mult_right_mono dict_le_num order_refl)
    simp_all

lemma hot2_mono: "dict_le b b' \<Longrightarrow> score (hot2 b) \<le> score (hot2 b')"
  unfolding indicator_scores
  by (intro min.mono add_mono dict_le_flag divide_right_mono mult_right_mono dict_le_num order_refl)
    simp_all

lemma hot3_mono: "dict_le b b' \<Longrightarrow> score (hot3 b) \<le> score (hot3 b')"
  unfolding indicator_scores
  by (intro min.mono add_mono dict_le_flag divide_right_mono mult_right_mono dict_le_num order_refl)
    simp_all

lemma hot4_mono: "dict_le a a' \<Longrightarrow> score (hot4 a) \<le> score (hot4 a')"
  unfolding indicator_scores
  by (intro min.mono add_mono dict_le_flag divide_right_mono mult_right_mono dict_le_num order_refl)
    simp_all

lemma pp1_mono: "dict_le a a' \<Longrightarrow> score (pp1 a) \<le> score (pp1 a')"
  unfolding indicator_scores
  by (intro min.mono add_mono dict_le_flag divide_right_mono mult_right_mono dict_le_num order_refl)
    simp_all

lemma pp2_mono:
  assumes "dict_le a a'" "dict_le c c'"
    "c' ''mean_prediction_error'' = c ''mean_prediction_error''"
  shows "score (pp2 a c) \<le> score (pp2 a' c')"
proof -
  have eq: "dict_get c' ''mean_prediction_error'' (PNum 1)
            = dict_get c ''mean_prediction_error'' (PNum 1)"
    by (simp add: dict_get_def assms(3))
  show ?thesis
    unfolding indicator_scores eq
    by (intro min.mono add_mono dict_le_flag divide_right_mono mult_right_mono dict_le_num
        order_refl assms(1,2)) simp_all
qed

lemma ast1_mono: "dict_le a a' \<Longrightarrow> dict_le c c' \<Longrightarrow> score (ast1 a c) \<le> score (ast1 a' c')"
  unfolding indicator_scores
  by (intro min.mono add_mono dict_le_flag divide_right_mono mult_right_mono dict_le_num order_refl)
    simp_all

lemma ast2_mono: "dict_le b b' \<Longrightarrow> dict_le c c' \<Longrightarrow> score (ast2 b c) \<le> score (ast2 b' c')"
  unfolding indicator_scores
  by (intro min.mono add_mono dict_le_flag divide_right_mono mult_right_mono dict_le_num order_refl)
    simp_all

lemmas indicator_mono =
  rpt1_mono rpt2_mono gwt1_mono gwt2_mono gwt3_mono hot1_mono hot2_mono hot3_mono hot4_mono
  pp1_mono pp2_mono ast1_mono ast2_mono

lemma gwt2_latency_antimono:
  assumes "a ''broadcast_latency_ms'' = Some v" "raised v v'"
  shows "score (gwt2 (a(''broadcast_latency_ms'' \<mapsto> v')) b) \<le> score (gwt2 a b)"
  unfolding indicator_scores
  by (rule min.mono [OF _ order_refl]) (use assms in \<open>auto simp: dict_get_def raised_def\<close>)

lemma pp2_mean_antimono:
  assumes "c ''mean_prediction_error'' = Some v" "raised v v'"
  shows "score (pp2 a (c(''mean_prediction_error'' \<mapsto> v'))) \<le> score (pp2 a c)"
  unfolding indicator_scores
  by (rule min.mono [OF _ order_refl]) (use assms in \<open>auto simp: dict_get_def raised_def\<close>)

lemma latency_not_read:
  "score (rpt1 (a(''broadcast_latency_ms'' \<mapsto> v'))) = score (rpt1 a)"
  "score (rpt2 (a(''broadcast_latency_ms'' \<mapsto> v'))) = score (rpt2 a)"
  "score (gwt1 (a(''broadcast_latency_ms'' \<mapsto> v'))) = score (gwt1 a)"
  "score (gwt3 (a(''broadcast_latency_ms'' \<mapsto> v'))) = score (gwt3 a)"
  "score (hot1 (a(''broadcast_latency_ms'' \<mapsto> v')) c) = score (hot1 a c)"
  "score (hot4 (a(''broadcast_latency_ms'' \<mapsto> v'))) = score (hot4 a)"
  "score (pp1 (a(''broadcast_latency_ms'' \<mapsto> v'))) = score (pp1 a)"
  "score (pp2 (a(''broadcast_latency_ms'' \<mapsto> v')) c) = score (pp2 a c)"
  "score (ast1 (a(''broadcast_latency_ms'' \<mapsto> v')) c) = score (ast1 a c)"
  by (simp_all add: indicator_scores dict_get_def)

lemma mean_error_not_read:
  "score (hot1 a (c(''mean_prediction_error'' \<mapsto> v'))) = score (hot1 a c)"
  "score (ast1 a (c(''mean_prediction_error'' \<mapsto> v'))) = score (ast1 a c)"
  "score (ast2 b (c(''mean_prediction_error'' \<mapsto> v'))) = score (ast2 b c)"
  by (simp_all add: indicator_scores dict_get_def)

text \<open>
  C3 (as amended). Raising one field of a profile that is present, with every other
  field as it was, never lowers the score of any indicator, except for the two
  fields for which less is better: raising \<open>broadcast_latency_ms\<close> of the
  architecture or \<open>mean_prediction_error\<close> of the internal states never raises the
  score of any indicator.
\<close>

theorem raising_a_field_monotone:
  "raised v v' \<Longrightarrow> field_get p sec k = Some v \<Longrightarrow>
     (if lower_is_better sec k
      then scores_le (all_indicators (field_set p sec k v')) (all_indicators p)
      else scores_le (all_indicators p) (all_indicators (field_set p sec k v')))"
proof -
  assume r: "raised v v'" and g: "field_get p sec k = Some v"
  show ?thesis
  proof (cases sec)
    case Architecture
    then have a: "section_get (architecture p) k = Some v"
      using g by (simp add: field_get_def)
    have le: "dict_le (section_get (architecture p)) ((section_get (architecture p))(k \<mapsto> v'))"
      by (rule dict_le_update [of "section_get (architecture p)" k v v', OF a r])
    show ?thesis
    proof (cases "k = ''broadcast_latency_ms''")
      case True
      then show ?thesis
        using gwt2_latency_antimono [OF _ r, of "section_get (architecture p)"] a
        by (simp add: Architecture lower_is_better_def scores_le_def all_indicators_list Let_def
            field_set_def latency_not_read section_get_def [of "Some x" for x])
    next
      case False
      then have "((section_get (architecture p))(k \<mapsto> v')) ''broadcast_latency_ms''
                 = section_get (architecture p) ''broadcast_latency_ms''"
        by simp
      then show ?thesis
        using False le
        by (simp add: Architecture lower_is_better_def scores_le_def all_indicators_list Let_def
            field_set_def section_get_def [of "Some x" for x] indicator_mono dict_le_refl)
    qed
  next
    case Behaviors
    then have b: "section_get (behaviors p) k = Some v"
      using g by (simp add: field_get_def)
    have le: "dict_le (section_get (behaviors p)) ((section_get (behaviors p))(k \<mapsto> v'))"
      by (rule dict_le_update [of "section_get (behaviors p)" k v v', OF b r])
    then show ?thesis
      by (simp add: Behaviors lower_is_better_def scores_le_def all_indicators_list Let_def
          field_set_def section_get_def [of "Some x" for x] indicator_mono dict_le_refl)
  next
    case Internal_states
    then have c: "section_get (internal_states p) k = Some v"
      using g by (simp add: field_get_def)
    have le: "dict_le (section_get (internal_states p))
                ((section_get (internal_states p))(k \<mapsto> v'))"
      by (rule dict_le_update [of "section_get (internal_states p)" k v v', OF c r])
    show ?thesis
    proof (cases "k = ''mean_prediction_error''")
      case True
      then show ?thesis
        using pp2_mean_antimono [OF _ r, of "section_get (internal_states p)"] c
        by (simp add: Internal_states lower_is_better_def scores_le_def all_indicators_list
            Let_def field_set_def mean_error_not_read section_get_def [of "Some x" for x])
    next
      case False
      then have "((section_get (internal_states p))(k \<mapsto> v')) ''mean_prediction_error''
                 = section_get (internal_states p) ''mean_prediction_error''"
        by simp
      then show ?thesis
        using False le
        by (simp add: Internal_states lower_is_better_def scores_le_def all_indicators_list
            Let_def field_set_def section_get_def [of "Some x" for x] indicator_mono dict_le_refl)
    qed
  qed
qed

lemma fast_broadcast_scores:
  "map score (all_indicators fast_broadcast_profile) = [0, 0, 0, 1 / 5, 0, 0, 0, 0, 0, 0, 0, 0, 0]"
  by (simp add: all_indicators_list Let_def indicator_scores fast_broadcast_profile_def
      section_get_def dict_get_def)

lemma slow_broadcast_scores:
  "map score (all_indicators
     (field_set fast_broadcast_profile Architecture ''broadcast_latency_ms'' (PNum 150)))
   = [0, 0, 0, 0, 0, 0, 0, 0, 0, 0, 0, 0, 0]"
  by (simp add: all_indicators_list Let_def indicator_scores fast_broadcast_profile_def
      field_set_def section_get_def dict_get_def)

lemma scores_le_map:
  "scores_le rs rs' \<longleftrightarrow> list_all2 (\<le>) (map score rs) (map score rs')"
  by (simp add: scores_le_def list_all2_map1 list_all2_map2)

text \<open>
  C3 (counterexample). In the profile \<open>{"architecture": {"broadcast_latency_ms":
  50}}\<close>, raising the latency from 50 to 150 lowers the score of GWT-2, the fourth
  indicator, from 0.2 to 0.
\<close>

theorem raising_latency_counterexample:
  "raised (PNum 50) (PNum 150)
   \<and> field_get fast_broadcast_profile Architecture ''broadcast_latency_ms'' = Some (PNum 50)
   \<and> map score (all_indicators fast_broadcast_profile)
       = [0, 0, 0, 1 / 5, 0, 0, 0, 0, 0, 0, 0, 0, 0]
   \<and> map score (all_indicators
         (field_set fast_broadcast_profile Architecture ''broadcast_latency_ms'' (PNum 150)))
       = [0, 0, 0, 0, 0, 0, 0, 0, 0, 0, 0, 0, 0]
   \<and> \<not> scores_le (all_indicators fast_broadcast_profile)
         (all_indicators
            (field_set fast_broadcast_profile Architecture ''broadcast_latency_ms'' (PNum 150)))"
proof -
  have r: "raised (PNum 50) (PNum 150)"
    by (simp add: raised_def)
  have g: "field_get fast_broadcast_profile Architecture ''broadcast_latency_ms''
           = Some (PNum 50)"
    by (simp add: field_get_def fast_broadcast_profile_def section_get_def)
  have n: "\<not> scores_le (all_indicators fast_broadcast_profile)
         (all_indicators
            (field_set fast_broadcast_profile Architecture ''broadcast_latency_ms'' (PNum 150)))"
    by (simp add: scores_le_map fast_broadcast_scores slow_broadcast_scores)
  show ?thesis
    using r g n fast_broadcast_scores slow_broadcast_scores by (intro conjI)
qed

text \<open>
  C3 (witness). Raising \<open>recurrence_depth\<close> from 10 to 12 in the recurrent profile
  lowers no score; raising \<open>broadcast_latency_ms\<close> from 50 to 150 raises none.
\<close>

theorem raising_a_field_monotone_witness:
  "raised (PNum 10) (PNum 12)
   \<and> field_get recurrent_profile Architecture ''recurrence_depth'' = Some (PNum 10)
   \<and> scores_le (all_indicators recurrent_profile)
       (all_indicators (field_set recurrent_profile Architecture ''recurrence_depth'' (PNum 12)))
   \<and> raised (PNum 50) (PNum 150)
   \<and> field_get fast_broadcast_profile Architecture ''broadcast_latency_ms'' = Some (PNum 50)
   \<and> scores_le
       (all_indicators
          (field_set fast_broadcast_profile Architecture ''broadcast_latency_ms'' (PNum 150)))
       (all_indicators fast_broadcast_profile)"
proof -
  have r1: "raised (PNum 10) (PNum 12)" and r2: "raised (PNum 50) (PNum 150)"
    by (simp_all add: raised_def)
  have g1: "field_get recurrent_profile Architecture ''recurrence_depth'' = Some (PNum 10)"
    by (simp add: field_get_def recurrent_profile_def section_get_def)
  have g2: "field_get fast_broadcast_profile Architecture ''broadcast_latency_ms''
            = Some (PNum 50)"
    by (simp add: field_get_def fast_broadcast_profile_def section_get_def)
  have l1: "\<not> lower_is_better Architecture ''recurrence_depth''"
    and l2: "lower_is_better Architecture ''broadcast_latency_ms''"
    by (simp_all add: lower_is_better_def)
  show ?thesis
    using r1 r2 g1 g2 raising_a_field_monotone [OF r1 g1] raising_a_field_monotone [OF r2 g2] by (simp only: l1 l2 if_True if_False simp_thms)
qed

end
